theory Spec2Isabelle
  imports Complex_Main "HOL-Library.List_Lexorder" "HOL-Library.Char_ord"
begin

section \<open>Values of the configuration document\<close>

text \<open>
  The configuration file is JSON. A value of it, as Python holds it after loading:
  \<open>None\<close>, a bool, an int, a (finite) float, a string, a list or a dict. A string is a
  Python 2 byte string: a list of \<^typ>\<open>char\<close>, compared bytewise and lexicographically
  (a proper prefix is smaller), which is the order of \<^typ>\<open>string\<close> here.
\<close>

datatype json =
    JNull
  | JBool bool
  | JInt int
  | JFloat real
  | JStr string
  | JArr "json list"
  | JObj "(string \<times> json) list"

text \<open>Python's truth value of such a value, as \<^verbatim>\<open>if link[2]:\<close> tests it.\<close>

fun truthy :: "json \<Rightarrow> bool" where
  "truthy JNull = False"
| "truthy (JBool b) = b"
| "truthy (JInt i) = (i \<noteq> 0)"
| "truthy (JFloat r) = (r \<noteq> 0)"
| "truthy (JStr s) = (s \<noteq> [])"
| "truthy (JArr xs) = (xs \<noteq> [])"
| "truthy (JObj kvs) = (kvs \<noteq> [])"

text \<open>The exceptions the program raises or lets through, by their Python class.\<close>

datatype error =
    Exception string
  | AssertionError string
  | IndexError
  | KeyError string
  | ValueError
  | IOError
  | CompilationError
  | SystemExit int

section \<open>The configuration document\<close>

text \<open>
  The keys of the document that \<^verbatim>\<open>AppRunner\<close> reads. A key that may be missing is an
  option. Of a switch's properties only \<^verbatim>\<open>cli_input\<close> is read here. A link description
  \<^verbatim>\<open>[node1, node2, latency, bandwidth, weight]\<close> is its two endpoint identifiers and the
  fields that follow them (none to three, or more): \<^verbatim>\<open>len(link)\<close> is
  \<open>2 + length rest\<close> and \<^verbatim>\<open>link[2]\<close> is \<open>rest ! 0\<close>.
\<close>

type_synonym unparsed_link = "string \<times> string \<times> json list"

record sw_dict =
  cli_input :: "string option"

text \<open>
  The \<^verbatim>\<open>topology\<close> block: the three keys that the program reads, each of which may
  be missing, and the other keys that the block holds. The switches are listed in the
  order in which \<^verbatim>\<open>iteritems()\<close> yields them. The block is an empty dictionary, which
  Python takes for false, when it has no key at all.
\<close>

record topology =
  t_hosts :: "json option"
  t_switches :: "(string \<times> sw_dict) list option"
  t_links :: "unparsed_link list option"
  t_other :: "(string \<times> json) list"

record conf =
  c_switch :: "string option"
  c_enable_log :: "json option"
  c_pcap_dump :: "json option"
  c_topology :: "topology option"
  c_cli :: "json option"
  c_switch_cli :: "string option"
  c_topo_module :: "json option"
  c_controller_module :: "json option"
  c_topodb_module :: "json option"
  c_mininet_module :: "json option"

text \<open>\<^verbatim>\<open>conf.get(key, False)\<close> where only its truth value is used.\<close>

definition get_flag :: "json option \<Rightarrow> bool" where
  "get_flag v = (case v of None \<Rightarrow> False | Some j \<Rightarrow> truthy j)"

text \<open>
  What the program takes from Python and from the \<^verbatim>\<open>ipaddress\<close> library, left as
  parameters: \<^verbatim>\<open>str(v)\<close> of a value that is not a string, \<^verbatim>\<open>str\<close> of the
  configuration dictionary, \<^verbatim>\<open>int(s)\<close> of a string (a \<^verbatim>\<open>ValueError\<close> when \<open>s\<close> is
  no integer literal), and \<^verbatim>\<open>ip_interface(s).network.compressed\<close> of an address with
  its mask (a \<^verbatim>\<open>ValueError\<close> when \<open>s\<close> is no address).
\<close>

record python =
  py_str :: "json \<Rightarrow> string"
  py_str_conf :: "conf \<Rightarrow> string"
  py_int :: "string \<Rightarrow> error + int"
  network_compressed :: "string \<Rightarrow> error + string"

text \<open>\<^verbatim>\<open>'%d' % n\<close>: the decimal digits of an integer, with its sign.\<close>

fun digits :: "nat \<Rightarrow> string" where
  "digits n =
     (if n < 10 then [''0123456789'' ! n]
      else digits (n div 10) @ [''0123456789'' ! (n mod 10)])"

declare digits.simps [simp del]

definition format_d :: "int \<Rightarrow> string" where
  "format_d n = (if n < 0 then CHR ''-'' # digits (nat (- n)) else digits (nat n))"

section \<open>Links: \<^verbatim>\<open>AppRunner.parse_links\<close>\<close>

record link_dict =
  node1 :: string
  node2 :: string
  latency :: string
  bandwidth :: json
  weight :: json

definition formatLatency :: "python \<Rightarrow> json \<Rightarrow> string" where
  "formatLatency py l = (case l of JStr s \<Rightarrow> s | _ \<Rightarrow> py_str py l @ ''ms'')"

text \<open>
  The dictionary of one link, before the endpoint check: the endpoints in order, the
  defaults, then each optional field that is present and true.
\<close>

definition link_fields :: "python \<Rightarrow> unparsed_link \<Rightarrow> link_dict" where
  "link_fields py link =
     (case link of (l0, l1, rest) \<Rightarrow>
        let (node_a, node_b) = (if l0 > l1 then (l1, l0) else (l0, l1));
            d0 = \<lparr>node1 = node_a, node2 = node_b, latency = ''0ms'',
                  bandwidth = JNull, weight = JInt 1\<rparr>;
            d1 = (if 2 + length rest > 2 \<and> truthy (rest ! 0)
                  then d0\<lparr>latency := formatLatency py (rest ! 0)\<rparr> else d0);
            d2 = (if 2 + length rest > 3 \<and> truthy (rest ! 1)
                  then d1\<lparr>bandwidth := rest ! 1\<rparr> else d1);
            d3 = (if 2 + length rest > 4 \<and> truthy (rest ! 2)
                  then d2\<lparr>weight := rest ! 2\<rparr> else d2)
        in d3)"

text \<open>
  The check at the end of the loop body. \<^verbatim>\<open>link_dict['node1'][0]\<close> raises
  \<^verbatim>\<open>IndexError\<close> on an empty identifier; the \<^verbatim>\<open>assert\<close> raises
  \<^verbatim>\<open>AssertionError\<close> with its message.
\<close>

definition check_link :: "link_dict \<Rightarrow> error + link_dict" where
  "check_link d =
     (if node1 d = [] then Inl IndexError
      else if hd (node1 d) = CHR ''h'' then
        (if node2 d = [] then Inl IndexError
         else if hd (node2 d) = CHR ''s'' then Inr d
         else Inl (AssertionError (''Hosts should be connected to switches, not '' @ node2 d)))
      else Inr d)"

definition parse_link :: "python \<Rightarrow> unparsed_link \<Rightarrow> error + link_dict" where
  "parse_link py link = check_link (link_fields py link)"

fun parse_links_loop ::
  "python \<Rightarrow> link_dict list \<Rightarrow> unparsed_link list \<Rightarrow> error + link_dict list" where
  "parse_links_loop py links [] = Inr links"
| "parse_links_loop py links (link # unparsed) =
     (case parse_link py link of
        Inl e \<Rightarrow> Inl e
      | Inr d \<Rightarrow> parse_links_loop py (links @ [d]) unparsed)"

definition parse_links :: "python \<Rightarrow> unparsed_link list \<Rightarrow> error + link_dict list" where
  "parse_links py unparsed_links = parse_links_loop py [] unparsed_links"

section \<open>Effects and exceptions\<close>

text \<open>
  What the program does to the emulator, the nodes and the operating system, one event
  for each call, in the order of the calls. \<open>Cmd h c\<close> is \<^verbatim>\<open>h.cmd(c)\<close> on the host
  named \<open>h\<close>; \<open>AddEntries\<close> is the call of \<^verbatim>\<open>add_entries\<close>; \<open>NetStart\<close> and
  \<open>NetStop\<close> are \<^verbatim>\<open>self.net.start()\<close> and \<^verbatim>\<open>self.net.stop()\<close>.
\<close>

datatype event =
    Cleanup
  | Sh string
  | Mkdir string
  | SetEnv string string
  | LoadCustomObject string
  | CompileAllP4
  | CreateNet
  | NetStart
  | NetStop
  | Sleep nat
  | Rename string string
  | Cmd string string
  | SetDefaultRoute string string
  | AddEntries int "string list" "string option" string
  | SaveTopology string
  | NetCLI

text \<open>
  A procedure gives the events it performed and then either its result or the exception
  that ended it. Nothing catches an exception except where the model says so: the events
  after the raising call do not happen.
\<close>

type_synonym 'a io = "event list \<times> (error + 'a)"

definition done_io :: "unit io" where
  "done_io = ([], Inr ())"

definition emit :: "event \<Rightarrow> unit io" where
  "emit ev = ([ev], Inr ())"

definition raise :: "error \<Rightarrow> 'a io" where
  "raise e = ([], Inl e)"

definition and_then :: "unit io \<Rightarrow> 'a io \<Rightarrow> 'a io" where
  "and_then m k = (case snd m of Inl e \<Rightarrow> (fst m, Inl e) | Inr u \<Rightarrow> (fst m @ fst k, snd k))"

definition bind_io :: "'a io \<Rightarrow> ('a \<Rightarrow> 'b io) \<Rightarrow> 'b io" where
  "bind_io m k =
     (case snd m of Inl e \<Rightarrow> (fst m, Inl e) | Inr x \<Rightarrow> (fst m @ fst (k x), snd (k x)))"

definition return_io :: "'a \<Rightarrow> 'a io" where
  "return_io x = ([], Inr x)"

text \<open>An external call: the event of the call, then the exception it raises, if any.\<close>

definition call :: "event \<Rightarrow> error option \<Rightarrow> unit io" where
  "call ev outcome = and_then (emit ev) (case outcome of None \<Rightarrow> done_io | Some e \<Rightarrow> raise e)"

fun run_seq :: "unit io list \<Rightarrow> unit io" where
  "run_seq [] = done_io"
| "run_seq (step # steps) = and_then step (run_seq steps)"

definition for_each :: "('a \<Rightarrow> unit io) \<Rightarrow> 'a list \<Rightarrow> unit io" where
  "for_each body xs = run_seq (map body xs)"

section \<open>The topology object and the started network\<close>

text \<open>
  \<^verbatim>\<open>self.topo\<close>, as far as \<^verbatim>\<open>program_hosts\<close> reads it: \<^verbatim>\<open>hosts()\<close> and
  \<^verbatim>\<open>hosts_info\<close>, a dictionary from a host's name to its switch, IP address, mask and
  MAC address.
\<close>

record host_info =
  info_sw :: string
  info_ip :: string
  info_mask :: int
  info_mac :: string

record topo =
  hosts :: "string list"
  hosts_info :: "string \<rightharpoonup> host_info"

text \<open>
  A host of the started network: \<^verbatim>\<open>h.IP()\<close> and \<^verbatim>\<open>h.intfs.values()\<close>. Of an
  interface, \<open>intf_name\<close> is the name that the commands read (they read it after the
  renaming) and \<open>peer_mac\<close> is the MAC address of the interface at the other end of its
  link, \<^verbatim>\<open>sw_iface.mac\<close>.
\<close>

record intf =
  intf_name :: string
  peer_mac :: string

record live_host =
  IP :: string
  intfs :: "intf list"

text \<open>\<^verbatim>\<open>self.net.get(name)\<close>: the hosts, and of a switch its \<^verbatim>\<open>thrift_port\<close>.\<close>

record net =
  net_hosts :: "string \<rightharpoonup> live_host"
  net_switches :: "string \<rightharpoonup> int"

section \<open>Hosts: \<^verbatim>\<open>AppRunner.program_hosts\<close>\<close>

definition sw_ip :: "int \<Rightarrow> string" where
  "sw_ip host_id = ''10.0.'' @ format_d host_id @ ''.254''"

definition arp_cmd :: "string \<Rightarrow> string \<Rightarrow> string \<Rightarrow> string" where
  "arp_cmd iface ip_addr mac = ''arp -i '' @ iface @ '' -s '' @ ip_addr @ '' '' @ mac"

text \<open>\<^verbatim>\<open>"%s/%d" % (ip, mask)\<close>, the text handed to \<^verbatim>\<open>ip_interface\<close>.\<close>

definition cidr :: "string \<Rightarrow> int \<Rightarrow> string" where
  "cidr ip_addr m = ip_addr @ ''/'' @ format_d m"

text \<open>
  The first half of the loop body: the host's number, the renaming, and the static ARP
  entry and routes for the gateway address.
\<close>

definition static_arp_and_route :: "python \<Rightarrow> string \<Rightarrow> intf \<Rightarrow> unit io" where
  "static_arp_and_route py host_name h_iface =
     (case py_int py (drop 1 host_name) of
        Inl e \<Rightarrow> raise e
      | Inr host_id \<Rightarrow>
          run_seq
            [emit (Rename host_name (host_name @ ''-eth0'')),
             emit (Cmd host_name (arp_cmd (intf_name h_iface) (sw_ip host_id) (peer_mac h_iface))),
             emit (Cmd host_name (''ethtool --offload '' @ intf_name h_iface @ '' rx off tx off'')),
             emit (Cmd host_name (''ip route add '' @ sw_ip host_id @ '' dev '' @ intf_name h_iface)),
             emit (SetDefaultRoute host_name (''via '' @ sw_ip host_id))])"

text \<open>
  The body of the inner loop, for the host \<open>host_name\<close> being programmed, its switch
  \<open>sw\<close>, its network \<open>host_network\<close>, and one host \<open>hosts_same_subnet\<close> of the topology.
\<close>

definition arp_rule :: "python \<Rightarrow> topo \<Rightarrow> string \<Rightarrow> intf \<Rightarrow> string \<Rightarrow> string \<Rightarrow> string \<Rightarrow> unit io" where
  "arp_rule py tp host_name h_iface sw host_network hosts_same_subnet =
     (if hosts_same_subnet = host_name then done_io
      else
        (case hosts_info tp hosts_same_subnet of
           None \<Rightarrow> raise (KeyError hosts_same_subnet)
         | Some other \<Rightarrow>
             if info_sw other = sw then
               (case network_compressed py (cidr (info_ip other) (info_mask other)) of
                  Inl e \<Rightarrow> raise e
                | Inr other_network \<Rightarrow>
                    if host_network = other_network
                    then emit (Cmd host_name
                           (arp_cmd (intf_name h_iface) (info_ip other) (info_mac other)))
                    else done_io)
             else done_io))"

text \<open>The second half of the loop body: the ARP rules for the hosts on the same switch.\<close>

definition arp_same_switch :: "python \<Rightarrow> topo \<Rightarrow> string \<Rightarrow> live_host \<Rightarrow> intf \<Rightarrow> unit io" where
  "arp_same_switch py tp host_name h h_iface =
     (case hosts_info tp host_name of
        None \<Rightarrow> raise (KeyError host_name)
      | Some info \<Rightarrow>
          (case network_compressed py (cidr (IP h) (info_mask info)) of
             Inl e \<Rightarrow> raise e
           | Inr host_network \<Rightarrow>
               for_each (arp_rule py tp host_name h_iface (info_sw info) host_network)
                 (hosts tp)))"

definition program_host :: "python \<Rightarrow> topo \<Rightarrow> net \<Rightarrow> string \<Rightarrow> unit io" where
  "program_host py tp nt host_name =
     (case net_hosts nt host_name of
        None \<Rightarrow> raise (KeyError host_name)
      | Some h \<Rightarrow>
          (case intfs h of
             [] \<Rightarrow> raise IndexError
           | h_iface # others \<Rightarrow>
               and_then (static_arp_and_route py host_name h_iface)
                 (arp_same_switch py tp host_name h h_iface)))"

definition program_hosts :: "python \<Rightarrow> topo \<Rightarrow> net \<Rightarrow> unit io" where
  "program_hosts py tp nt = for_each (program_host py tp nt) (hosts tp)"

section \<open>The world outside the program\<close>

text \<open>
  What the program finds when it asks the operating system, the compiler and the
  emulator: the answers are inputs of the model. \<open>default_switch\<close> is the constant
  \<^verbatim>\<open>DEFAULT_SWITCH\<close> of the package. A directory is found missing, or a directory, or
  something else. A call that may raise has its outcome here: \<open>None\<close> when it returns,
  the exception otherwise. \<open>built_topo\<close> is the object that the topology builder returns
  and \<open>started_net\<close> the network that the emulator runs.
\<close>

datatype path_kind = NoPath | Directory | NotDirectory

record world =
  default_switch :: string
  conf_isfile :: bool
  load_conf :: "error + conf"
  log_dir_kind :: path_kind
  pcap_dir_kind :: path_kind
  mkdir_outcome :: "string \<Rightarrow> error option"
  custom_object_outcome :: "string \<Rightarrow> error option"
  compile_outcome :: "error option"
  create_outcome :: "error option"
  built_topo :: topo
  started_net :: net
  start_outcome :: "error option"
  entries_of_file :: "string \<rightharpoonup> string list"
  save_outcome :: "error option"
  cli_outcome :: "error option"
  stop_outcome :: "error option"

section \<open>Switches: \<^verbatim>\<open>AppRunner.program_switches\<close>\<close>

text \<open>
  Modelled from the spec: \<^verbatim>\<open>read_entries\<close> and \<^verbatim>\<open>add_entries\<close> of
  \<^verbatim>\<open>p4utils.utils.utils\<close>, which the sources at hand do not hold. The spec has the
  command file read into an ordered sequence of control-plane entries
  (\<open>entries_of_file\<close> gives the sequence of a file that can be read), and the sequence
  applied, in its order, to the control-plane endpoint at the switch's port.
\<close>

definition read_entries :: "world \<Rightarrow> string \<Rightarrow> string list io" where
  "read_entries w filename =
     (case entries_of_file w filename of None \<Rightarrow> raise IOError | Some entries \<Rightarrow> return_io entries)"

definition add_entries :: "int \<Rightarrow> string list \<Rightarrow> string option \<Rightarrow> string \<Rightarrow> unit io" where
  "add_entries thrift_port entries cli_outfile cli =
     emit (AddEntries thrift_port entries cli_outfile cli)"

text \<open>
  Modelled from the spec: the sequence of entries that the endpoint at a port observes
  in a run, the entries of each application to that port, in the order of the run.
\<close>

fun observed :: "int \<Rightarrow> event list \<Rightarrow> string list" where
  "observed port [] = []"
| "observed port (AddEntries p entries outfile cli # evs) =
     (if p = port then entries @ observed port evs else observed port evs)"
| "observed port (ev # evs) = observed port evs"

text \<open>
  The object \<^verbatim>\<open>self\<close> after construction. \<open>log_enabled\<close> and \<open>pcap_dump\<close> hold the
  truth value of the configured flag, which is all that is read of it.
\<close>

record app_runner =
  conf_file :: string
  app_conf :: conf
  cli_enabled :: bool
  pcap_dir :: string
  log_dir :: string
  bmv2_exe :: string
  log_enabled :: bool
  pcap_dump :: bool
  app_hosts :: json
  switches :: "(string \<times> sw_dict) list"
  links :: "link_dict list"

definition program_switch :: "world \<Rightarrow> app_runner \<Rightarrow> string \<Rightarrow> string \<times> sw_dict \<Rightarrow> unit io" where
  "program_switch w app cli sw =
     (case sw of (sw_name, sw_d) \<Rightarrow>
        (case cli_input sw_d of
           None \<Rightarrow> done_io
         | Some cli_input_commands \<Rightarrow>
             (case net_switches (started_net w) sw_name of
                None \<Rightarrow> raise (KeyError sw_name)
              | Some thrift_port \<Rightarrow>
                  let cli_outfile =
                        (if log_enabled app
                         then Some (log_dir app @ ''/'' @ sw_name @ ''_cli_output.log'')
                         else None)
                  in bind_io (read_entries w cli_input_commands)
                       (\<lambda>entries. add_entries thrift_port entries cli_outfile cli))))"

definition program_switches :: "world \<Rightarrow> app_runner \<Rightarrow> unit io" where
  "program_switches w app =
     (case c_switch_cli (app_conf app) of
        None \<Rightarrow> raise (KeyError ''switch_cli'')
      | Some cli \<Rightarrow> for_each (program_switch w app cli) (switches app))"

section \<open>Construction: \<^verbatim>\<open>AppRunner.__init__\<close>\<close>

record args =
  arg_config :: string
  arg_log_dir :: string
  arg_pcap_dir :: string
  arg_cli :: bool
  arg_quiet :: bool
  arg_clean :: bool
  arg_only_clean :: bool

text \<open>Ensure that a needed directory exists and is a directory.\<close>

definition ensure_dir :: "world \<Rightarrow> path_kind \<Rightarrow> string \<Rightarrow> unit io" where
  "ensure_dir w kind dir =
     (if kind \<noteq> Directory then
        (if kind \<noteq> NoPath
         then raise (Exception ([CHR 0x27] @ dir @ [CHR 0x27] @ '' exists and is not a directory!''))
         else call (Mkdir dir) (mkdir_outcome w dir))
      else done_io)"

text \<open>\<^verbatim>\<open>if self.conf.get(key, None): ... = self.load_custom_object(key)\<close>\<close>

definition custom_object :: "world \<Rightarrow> json option \<Rightarrow> string \<Rightarrow> unit io" where
  "custom_object w v key =
     (if get_flag v then call (LoadCustomObject key) (custom_object_outcome w key) else done_io)"

text \<open>
  The part of the constructor from \<^verbatim>\<open># load topology\<close> on. An absent block and an
  empty one are both false for \<^verbatim>\<open>if not topology\<close>; a block with other keys only is
  true, and \<^verbatim>\<open>topology['hosts']\<close> raises \<^verbatim>\<open>KeyError\<close>.
\<close>

definition load_topology :: "python \<Rightarrow> conf \<Rightarrow> error + json \<times> (string \<times> sw_dict) list \<times> link_dict list" where
  "load_topology py cf =
     (case c_topology cf of
        None \<Rightarrow> Inl (Exception (''topology to create is not defined in '' @ py_str_conf py cf))
      | Some t \<Rightarrow>
          if t_hosts t = None \<and> t_switches t = None \<and> t_links t = None \<and> t_other t = []
          then Inl (Exception (''topology to create is not defined in '' @ py_str_conf py cf))
          else
            (case t_hosts t of
               None \<Rightarrow> Inl (KeyError ''hosts'')
             | Some hs \<Rightarrow>
                 (case t_switches t of
                    None \<Rightarrow> Inl (KeyError ''switches'')
                  | Some sws \<Rightarrow>
                      (case t_links t of
                         None \<Rightarrow> Inl (KeyError ''links'')
                       | Some ls \<Rightarrow>
                           (case parse_links py ls of
                              Inl e \<Rightarrow> Inl e
                            | Inr parsed \<Rightarrow> Inr (hs, sws, parsed))))))"

text \<open>
  The constructor before \<^verbatim>\<open># load topology\<close>: the switches of an earlier run are
  killed, and the directories of the logs and of the pcap files are ensured when the
  document enables them.
\<close>

definition prepare_dirs :: "world \<Rightarrow> conf \<Rightarrow> args \<Rightarrow> string \<Rightarrow> unit io" where
  "prepare_dirs w cf a exe =
     run_seq
       [emit (Sh (''killall '' @ exe)),
        if get_flag (c_enable_log cf)
        then ensure_dir w (log_dir_kind w) (arg_log_dir a) else done_io,
        if get_flag (c_pcap_dump cf)
        then ensure_dir w (pcap_dir_kind w) (arg_pcap_dir a) else done_io]"

text \<open>The constructor after the links are parsed: the environment and the builders.\<close>

definition set_builders :: "world \<Rightarrow> conf \<Rightarrow> args \<Rightarrow> unit io" where
  "set_builders w cf a =
     run_seq
       [emit (SetEnv ''P4APP_LOGDIR'' (arg_log_dir a)),
        custom_object w (c_topo_module cf) ''topo_module'',
        custom_object w (c_controller_module cf) ''controller_module'',
        custom_object w (c_topodb_module cf) ''topodb_module'',
        custom_object w (c_mininet_module cf) ''mininet_module'']"

definition init :: "world \<Rightarrow> python \<Rightarrow> args \<Rightarrow> app_runner io" where
  "init w py a =
     (if \<not> conf_isfile w
      then raise (Exception (''Configuration '' @ arg_config a @ '' is not in the directory!''))
      else
        (case load_conf w of
           Inl e \<Rightarrow> raise e
         | Inr cf \<Rightarrow>
             let exe = (case c_switch cf of None \<Rightarrow> default_switch w | Some s \<Rightarrow> s) in
             and_then (prepare_dirs w cf a exe)
               (case load_topology py cf of
                  Inl e \<Rightarrow> raise e
                | Inr (hs, sws, parsed) \<Rightarrow>
                    and_then (set_builders w cf a)
                      (return_io
                         \<lparr>conf_file = arg_config a, app_conf = cf, cli_enabled = arg_cli a,
                          pcap_dir = arg_pcap_dir a, log_dir = arg_log_dir a, bmv2_exe = exe,
                          log_enabled = get_flag (c_enable_log cf),
                          pcap_dump = get_flag (c_pcap_dump cf),
                          app_hosts = hs, switches = sws, links = parsed\<rparr>))))"

section \<open>The run: \<^verbatim>\<open>AppRunner.run_app\<close> and \<^verbatim>\<open>main\<close>\<close>

text \<open>
  \<^verbatim>\<open>create_network\<close>: a \<^verbatim>\<open>CompilationError\<close> of the compiler is caught and the
  program exits with \<^verbatim>\<open>sys.exit(0)\<close>; then the topology and the network objects are
  built.
\<close>

definition create_network :: "world \<Rightarrow> unit io" where
  "create_network w =
     and_then (emit CompileAllP4)
       (case compile_outcome w of
          Some CompilationError \<Rightarrow> raise (SystemExit 0)
        | Some e \<Rightarrow> raise e
        | None \<Rightarrow> call CreateNet (create_outcome w))"

definition save_topology :: "world \<Rightarrow> unit io" where
  "save_topology w = call (SaveTopology ''./topology.db'') (save_outcome w)"

definition do_net_cli :: "world \<Rightarrow> unit io" where
  "do_net_cli w = call NetCLI (cli_outcome w)"

definition run_app_steps :: "world \<Rightarrow> python \<Rightarrow> app_runner \<Rightarrow> unit io list" where
  "run_app_steps w py app =
       [create_network w,
        call NetStart (start_outcome w),
        emit (Sleep 1),
        program_hosts py (built_topo w) (started_net w),
        program_switches w app,
        save_topology w,
        emit (Sleep 1),
        if cli_enabled app \<or> get_flag (c_cli (app_conf app)) then do_net_cli w else done_io,
        call NetStop (stop_outcome w)]"

definition run_app :: "world \<Rightarrow> python \<Rightarrow> app_runner \<Rightarrow> unit io" where
  "run_app w py app = run_seq (run_app_steps w py app)"

definition main :: "world \<Rightarrow> python \<Rightarrow> args \<Rightarrow> unit io" where
  "main w py a =
     and_then (emit Cleanup)
       (and_then
          (if arg_clean a \<or> arg_only_clean a
           then run_seq
                  [emit (Sh (''rm -rf '' @ arg_pcap_dir a)),
                   emit (Sh (''rm -rf '' @ arg_log_dir a)),
                   emit (Sh ''rm -f topology.db'')]
           else done_io)
          (if (arg_clean a \<or> arg_only_clean a) \<and> arg_only_clean a then done_io
           else bind_io (init w py a) (\<lambda>app. run_app w py app)))"

text \<open>Whether a text occurs in a message.\<close>

fun mentions :: "string \<Rightarrow> string \<Rightarrow> bool" where
  "mentions sub [] = (sub = [])"
| "mentions sub (c # cs) = (take (length sub) (c # cs) = sub \<or> mentions sub cs)"

section \<open>An example\<close>

text \<open>
  A Python for the examples. \<^verbatim>\<open>int\<close> of a byte string: white space at both ends is
  dropped, a sign may come first, and decimal digits, at least one, must be all the
  rest; every other text is a \<^verbatim>\<open>ValueError\<close>. \<^verbatim>\<open>str\<close> is given on an integer, and
  the networks are those of the three addresses that the example uses.
\<close>

definition is_space :: "char \<Rightarrow> bool" where
  "is_space c = (c \<in> set [CHR '' '', CHR 0x09, CHR 0x0A, CHR 0x0B, CHR 0x0C, CHR 0x0D])"

definition strip :: "string \<Rightarrow> string" where
  "strip s = rev (dropWhile is_space (rev (dropWhile is_space s)))"

definition digits_value :: "string \<Rightarrow> error + int" where
  "digits_value ds =
     (if ds \<noteq> [] \<and> list_all (\<lambda>c. c \<in> set ''0123456789'') ds
      then Inr (foldl (\<lambda>n c. 10 * n + (int (of_char c) - 48)) 0 ds)
      else Inl ValueError)"

definition decimal :: "string \<Rightarrow> error + int" where
  "decimal s =
     (case strip s of
        [] \<Rightarrow> Inl ValueError
      | c # cs \<Rightarrow>
          if c = CHR ''-'' then
            (case digits_value cs of Inl e \<Rightarrow> Inl e | Inr v \<Rightarrow> Inr (- v))
          else if c = CHR ''+'' then digits_value cs
          else digits_value (c # cs))"

definition example_network :: "string \<Rightarrow> error + string" where
  "example_network s =
     (if s = ''10.0.1.1/24'' then Inr ''10.0.1.0/24''
      else if s = ''10.0.1.2/24'' then Inr ''10.0.1.0/24''
      else if s = ''10.0.2.3/24'' then Inr ''10.0.2.0/24''
      else Inl ValueError)"

definition example_python :: python where
  "example_python =
     \<lparr>py_str = (\<lambda>v. case v of JInt n \<Rightarrow> format_d n | _ \<Rightarrow> []),
      py_str_conf = (\<lambda>cf. ''{...}''),
      py_int = decimal,
      network_compressed = example_network\<rparr>"

text \<open>
  Three hosts on the switch \<open>s1\<close>: \<open>h1\<close> and \<open>h2\<close> in the network \<open>10.0.1.0/24\<close>,
  \<open>h3\<close> in \<open>10.0.2.0/24\<close>.
\<close>

definition example_topo :: topo where
  "example_topo =
     \<lparr>hosts = [''h1'', ''h2'', ''h3''],
      hosts_info =
        [''h1'' \<mapsto> \<lparr>info_sw = ''s1'', info_ip = ''10.0.1.1'', info_mask = 24,
                     info_mac = ''00:00:0a:00:01:01''\<rparr>,
         ''h2'' \<mapsto> \<lparr>info_sw = ''s1'', info_ip = ''10.0.1.2'', info_mask = 24,
                     info_mac = ''00:00:0a:00:01:02''\<rparr>,
         ''h3'' \<mapsto> \<lparr>info_sw = ''s1'', info_ip = ''10.0.2.3'', info_mask = 24,
                     info_mac = ''00:00:0a:00:02:03''\<rparr>]\<rparr>"

definition example_host :: "string \<Rightarrow> string \<Rightarrow> string \<Rightarrow> live_host" where
  "example_host host_name ip_addr mac =
     \<lparr>IP = ip_addr, intfs = [\<lparr>intf_name = host_name @ ''-eth0'', peer_mac = mac\<rparr>]\<rparr>"

definition example_net :: net where
  "example_net =
     \<lparr>net_hosts =
        [''h1'' \<mapsto> example_host ''h1'' ''10.0.1.1'' ''00:01:0a:00:01:01'',
         ''h2'' \<mapsto> example_host ''h2'' ''10.0.1.2'' ''00:01:0a:00:01:02'',
         ''h3'' \<mapsto> example_host ''h3'' ''10.0.2.3'' ''00:01:0a:00:02:03''],
      net_switches = [''s1'' \<mapsto> 9090, ''s2'' \<mapsto> 9091]\<rparr>"

definition example_conf :: conf where
  "example_conf =
     \<lparr>c_switch = None, c_enable_log = None, c_pcap_dump = None,
      c_topology =
        Some \<lparr>t_hosts = Some (JObj [(''h1'', JObj []), (''h2'', JObj []), (''h3'', JObj [])]),
              t_switches = Some [(''s1'', \<lparr>cli_input = Some ''s1-commands.txt''\<rparr>),
                                 (''s2'', \<lparr>cli_input = None\<rparr>)],
              t_links = Some [(''h1'', ''s1'', []), (''s1'', ''h2'', []), (''h3'', ''s1'', []),
                              (''s1'', ''s2'', [JStr [], JNull, JInt 5])],
              t_other = []\<rparr>,
      c_cli = None, c_switch_cli = Some ''simple_switch_CLI'',
      c_topo_module = None, c_controller_module = None, c_topodb_module = None,
      c_mininet_module = None\<rparr>"

definition example_world :: world where
  "example_world =
     \<lparr>default_switch = ''simple_switch'', conf_isfile = True, load_conf = Inr example_conf,
      log_dir_kind = NoPath, pcap_dir_kind = NoPath,
      mkdir_outcome = (\<lambda>d. None), custom_object_outcome = (\<lambda>k. None),
      compile_outcome = None, create_outcome = None,
      built_topo = example_topo, started_net = example_net, start_outcome = None,
      entries_of_file = [''s1-commands.txt'' \<mapsto> [''A'', ''B'', ''C'']],
      save_outcome = None, cli_outcome = None, stop_outcome = None\<rparr>"

definition example_args :: args where
  "example_args =
     \<lparr>arg_config = ''p4app.json'', arg_log_dir = ''log'', arg_pcap_dir = ''pcap'',
      arg_cli = True, arg_quiet = False, arg_clean = False, arg_only_clean = False\<rparr>"

text \<open>The object that the constructor returns in the example.\<close>

definition example_app :: app_runner where
  "example_app =
     \<lparr>conf_file = ''p4app.json'', app_conf = example_conf, cli_enabled = True,
      pcap_dir = ''pcap'', log_dir = ''log'', bmv2_exe = ''simple_switch'',
      log_enabled = False, pcap_dump = False,
      app_hosts = JObj [(''h1'', JObj []), (''h2'', JObj []), (''h3'', JObj [])],
      switches = [(''s1'', \<lparr>cli_input = Some ''s1-commands.txt''\<rparr>),
                  (''s2'', \<lparr>cli_input = None\<rparr>)],
      links = [\<lparr>node1 = ''h1'', node2 = ''s1'', latency = ''0ms'', bandwidth = JNull,
                 weight = JInt 1\<rparr>,
               \<lparr>node1 = ''h2'', node2 = ''s1'', latency = ''0ms'', bandwidth = JNull,
                 weight = JInt 1\<rparr>,
               \<lparr>node1 = ''h3'', node2 = ''s1'', latency = ''0ms'', bandwidth = JNull,
                 weight = JInt 1\<rparr>,
               \<lparr>node1 = ''s1'', node2 = ''s2'', latency = ''0ms'', bandwidth = JNull,
                 weight = JInt 5\<rparr>]\<rparr>"

section \<open>Properties of link parsing\<close>

lemma ordered_endpoints:
  "(if b < a then (b, a) else (a, b)) = (min a b, max a (b::string))"
  by (auto simp: min_def max_def)

lemma link_fields_swap: "link_fields py (a, b, opts) = link_fields py (b, a, opts)"
  unfolding link_fields_def prod.case ordered_endpoints
  by (simp only: min.commute max.commute)

lemma link_fields_nodes:
  "node1 (link_fields py (a, b, opts)) = min a b \<and> node2 (link_fields py (a, b, opts)) = max a b"
  unfolding link_fields_def prod.case ordered_endpoints
  by (simp add: Let_def)

lemma check_link_Inr: "check_link d = Inr d' \<Longrightarrow> d' = d"
  by (simp add: check_link_def split: if_splits)

lemma parse_link_Inr: "parse_link py l = Inr d \<Longrightarrow> d = link_fields py l"
  by (simp add: parse_link_def check_link_Inr)

lemma parse_link_swap: "parse_link py (a, b, opts) = parse_link py (b, a, opts)"
  by (simp add: parse_link_def link_fields_swap [of py a b opts])

lemma parse_links_loop_cong:
  "parse_link py x = parse_link py y \<Longrightarrow>
   parse_links_loop py acc (pre @ x # post) = parse_links_loop py acc (pre @ y # post)"
  by (induction pre arbitrary: acc) (auto split: sum.splits)


lemma parse_links_loop_accepted:
  "(\<And>l. l \<in> set ls \<Longrightarrow> parse_link py l = Inr (link_fields py l)) \<Longrightarrow>
   parse_links_loop py acc ls = Inr (acc @ map (link_fields py) ls)"
  by (induction ls arbitrary: acc) auto







lemma parse_link_not_host:
  assumes "min a b \<noteq> []" "hd (min a b) \<noteq> CHR ''h''"
  shows "parse_link py (a, b, opts) = Inr (link_fields py (a, b, opts))"
  using assms by (simp add: parse_link_def check_link_def link_fields_nodes)


lemma parse_links_loop_records:
  "parse_links_loop py acc ls = Inr r \<Longrightarrow> r = acc @ map (link_fields py) ls"
proof (induction ls arbitrary: acc)
  case Nil
  then show ?case by simp
next
  case (Cons l ls)
  then obtain d where d: "parse_link py l = Inr d"
    by (cases "parse_link py l") auto
  with Cons.prems have "parse_links_loop py (acc @ [d]) ls = Inr r" by simp
  then have "r = (acc @ [d]) @ map (link_fields py) ls" by (rule Cons.IH)
  with parse_link_Inr [OF d] show ?case by simp
qed

lemma parse_links_records:
  "parse_links py ls = Inr r \<Longrightarrow> r = map (link_fields py) ls"
  unfolding parse_links_def using parse_links_loop_records [of py "[]" ls r] by simp

text \<open>
  C1. The links \<open>(a, b, opts)\<close> and \<open>(b, a, opts)\<close>, with the same optional fields, are
  parsed to the same result, alone and at any place of a list of links; the dictionary
  of such a link has the smaller of the two identifiers as \<open>node1\<close> and the larger as
  \<open>node2\<close>. The list that \<^verbatim>\<open>parse_links\<close> returns holds one dictionary for each link, in
  the order of the links, and at the place of this link it holds that dictionary.
\<close>

theorem parse_links_endpoint_order:
  "parse_links py (pre @ (a, b, opts) # post) = parse_links py (pre @ (b, a, opts) # post)
   \<and> parse_link py (a, b, opts) = parse_link py (b, a, opts)
   \<and> (\<forall>d. parse_link py (a, b, opts) = Inr d \<longrightarrow> node1 d = min a b \<and> node2 d = max a b)
   \<and> (\<forall>r. parse_links py (pre @ (a, b, opts) # post) = Inr r \<longrightarrow>
          r = map (link_fields py) (pre @ (a, b, opts) # post)
          \<and> length r = length pre + 1 + length post
          \<and> r ! length pre = link_fields py (a, b, opts)
          \<and> node1 (r ! length pre) = min a b \<and> node2 (r ! length pre) = max a b)"
proof (intro conjI allI impI)
  show "parse_links py (pre @ (a, b, opts) # post) = parse_links py (pre @ (b, a, opts) # post)"
    unfolding parse_links_def by (rule parse_links_loop_cong) (rule parse_link_swap)
  show "parse_link py (a, b, opts) = parse_link py (b, a, opts)"
    by (rule parse_link_swap)
next
  fix d assume "parse_link py (a, b, opts) = Inr d"
  then have "d = link_fields py (a, b, opts)"
    by (rule parse_link_Inr)
  then show "node1 d = min a b" "node2 d = max a b"
    by (simp_all add: link_fields_nodes)
next
  fix r assume "parse_links py (pre @ (a, b, opts) # post) = Inr r"
  then show r: "r = map (link_fields py) (pre @ (a, b, opts) # post)"
    by (rule parse_links_records)
  then show "length r = length pre + 1 + length post"
    by simp
  from r have "r = map (link_fields py) pre @ link_fields py (a, b, opts) # map (link_fields py) post"
    by simp
  then show n: "r ! length pre = link_fields py (a, b, opts)"
    by (simp add: nth_append)
  show "node1 (r ! length pre) = min a b" "node2 (r ! length pre) = max a b"
    by (simp_all add: n link_fields_nodes)
qed

theorem parse_links_endpoint_order_witness:
  "parse_links example_python [(''s1'', ''h2'', [JInt 5])]
     = Inr [\<lparr>node1 = ''h2'', node2 = ''s1'', latency = ''5ms'', bandwidth = JNull,
             weight = JInt 1\<rparr>]
   \<and> parse_links example_python [(''h2'', ''s1'', [JInt 5])]
     = Inr [\<lparr>node1 = ''h2'', node2 = ''s1'', latency = ''5ms'', bandwidth = JNull,
             weight = JInt 1\<rparr>]
   \<and> parse_link example_python (''s1'', ''h2'', [JInt 5])
     = Inr \<lparr>node1 = ''h2'', node2 = ''s1'', latency = ''5ms'', bandwidth = JNull,
            weight = JInt 1\<rparr>
   \<and> node1 \<lparr>node1 = ''h2'', node2 = ''s1'', latency = ''5ms'', bandwidth = JNull,
            weight = JInt 1\<rparr> = min ''s1'' ''h2''
   \<and> node2 \<lparr>node1 = ''h2'', node2 = ''s1'', latency = ''5ms'', bandwidth = JNull,
            weight = JInt 1\<rparr> = max ''s1'' ''h2''
   \<and> length [\<lparr>node1 = ''h2'', node2 = ''s1'', latency = ''5ms'', bandwidth = JNull,
            weight = JInt 1\<rparr>] = length ([] :: unparsed_link list) + 1 + length ([] :: unparsed_link list)"
proof -
  have p: "parse_link example_python (''s1'', ''h2'', [JInt 5])
     = Inr \<lparr>node1 = ''h2'', node2 = ''s1'', latency = ''5ms'', bandwidth = JNull,
            weight = JInt 1\<rparr>"
    by (simp add: parse_link_def check_link_def link_fields_def formatLatency_def
        example_python_def format_d_def digits.simps)
  have q: "parse_links example_python [(''s1'', ''h2'', [JInt 5])]
     = Inr [\<lparr>node1 = ''h2'', node2 = ''s1'', latency = ''5ms'', bandwidth = JNull,
             weight = JInt 1\<rparr>]"
    by (simp add: parse_links_def p)
  have e: "parse_links example_python [(''s1'', ''h2'', [JInt 5])]
      = parse_links example_python [(''h2'', ''s1'', [JInt 5])]"
    using parse_links_endpoint_order [of example_python "[]" "''s1''" "''h2''" "[JInt 5]" "[]"]
    by simp
  have m: "min ''s1'' ''h2'' = ''h2''" "max ''s1'' ''h2'' = ''s1''"
    by (simp_all add: min_def max_def)
  from e q have q': "parse_links example_python [(''h2'', ''s1'', [JInt 5])]
     = Inr [\<lparr>node1 = ''h2'', node2 = ''s1'', latency = ''5ms'', bandwidth = JNull,
             weight = JInt 1\<rparr>]"
    by simp
  from p q q' m show ?thesis by simp
qed



text \<open>
  C9. A link whose smaller endpoint begins with a character other than \<open>h\<close> is accepted
  as it is, whatever the other endpoint: the assertion is not evaluated. A list of such
  links is parsed to the list of their dictionaries.
\<close>

theorem no_check_unless_node1_is_host:
  "(min a b \<noteq> [] \<and> hd (min a b) \<noteq> CHR ''h''
      \<longrightarrow> parse_link py (a, b, opts) = Inr (link_fields py (a, b, opts)))
   \<and> ((\<forall>l \<in> set ls. min (fst l) (fst (snd l)) \<noteq> [] \<and> hd (min (fst l) (fst (snd l))) \<noteq> CHR ''h'')
      \<longrightarrow> parse_links py ls = Inr (map (link_fields py) ls))"
proof (intro conjI impI)
  assume "min a b \<noteq> [] \<and> hd (min a b) \<noteq> CHR ''h''"
  then show "parse_link py (a, b, opts) = Inr (link_fields py (a, b, opts))"
    by (simp add: parse_link_not_host)
next
  assume all: "\<forall>l \<in> set ls. min (fst l) (fst (snd l)) \<noteq> [] \<and> hd (min (fst l) (fst (snd l))) \<noteq> CHR ''h''"
  have "parse_link py l = Inr (link_fields py l)" if "l \<in> set ls" for l
  proof -
    obtain x y opts' where l: "l = (x, y, opts')" by (cases l) auto
    with all that show ?thesis by (auto simp: parse_link_not_host)
  qed
  then have "parse_links_loop py [] ls = Inr ([] @ map (link_fields py) ls)"
    by (rule parse_links_loop_accepted)
  then show "parse_links py ls = Inr (map (link_fields py) ls)"
    by (simp add: parse_links_def)
qed

theorem no_check_unless_node1_is_host_witness:
  "min ''s2'' ''s1'' \<noteq> [] \<and> hd (min ''s2'' ''s1'') \<noteq> CHR ''h''
   \<and> min ''h1'' ''a1'' \<noteq> [] \<and> hd (min ''h1'' ''a1'') \<noteq> CHR ''h''
   \<and> parse_link example_python (''h1'', ''a1'', [])
       = Inr \<lparr>node1 = ''a1'', node2 = ''h1'', latency = ''0ms'', bandwidth = JNull,
              weight = JInt 1\<rparr>
   \<and> parse_links example_python [(''s2'', ''s1'', []), (''h1'', ''a1'', [])]
       = Inr [\<lparr>node1 = ''s1'', node2 = ''s2'', latency = ''0ms'', bandwidth = JNull,
               weight = JInt 1\<rparr>,
              \<lparr>node1 = ''a1'', node2 = ''h1'', latency = ''0ms'', bandwidth = JNull,
               weight = JInt 1\<rparr>]"
proof -
  have m: "min ''s2'' ''s1'' = ''s1''" "min ''h1'' ''a1'' = ''a1''"
    by (simp_all add: min_def)
  have f: "link_fields example_python (''s2'', ''s1'', [])
      = \<lparr>node1 = ''s1'', node2 = ''s2'', latency = ''0ms'', bandwidth = JNull, weight = JInt 1\<rparr>"
    "link_fields example_python (''h1'', ''a1'', [])
      = \<lparr>node1 = ''a1'', node2 = ''h1'', latency = ''0ms'', bandwidth = JNull, weight = JInt 1\<rparr>"
    by (simp_all add: link_fields_def)
  show ?thesis
    using no_check_unless_node1_is_host [of "''h1''" "''a1''" example_python "[]"
        "[(''s2'', ''s1'', []), (''h1'', ''a1'', [])]"] m f
    by simp
qed

section \<open>Properties of the effects\<close>

lemma and_then_ok:
  "snd (and_then m k) = Inr x \<longleftrightarrow> snd m = Inr () \<and> snd k = Inr x"
  by (cases m; cases k) (auto simp: and_then_def split: sum.splits)

lemma and_then_events_ok:
  "snd m = Inr () \<Longrightarrow> fst (and_then m k) = fst m @ fst k"
  by (simp add: and_then_def)

lemma and_then_fail:
  "snd m = Inl e \<Longrightarrow> and_then m k = (fst m, Inl e)"
  by (simp add: and_then_def)

lemma and_then_events_subset: "set (fst (and_then m k)) \<subseteq> set (fst m) \<union> set (fst k)"
  by (cases "snd m") (auto simp: and_then_def)

lemma run_seq_ok:
  "snd (run_seq steps) = Inr () \<longleftrightarrow> (\<forall>s \<in> set steps. snd s = Inr ())"
  by (induction steps) (auto simp: and_then_ok done_io_def)

lemma run_seq_events:
  "snd (run_seq steps) = Inr () \<Longrightarrow> fst (run_seq steps) = concat (map fst steps)"
  by (induction steps) (auto simp: and_then_ok and_then_events_ok done_io_def)

lemma run_seq_events_subset:
  "set (fst (run_seq steps)) \<subseteq> (\<Union>s \<in> set steps. set (fst s))"
proof (induction steps)
  case Nil
  then show ?case by (simp add: done_io_def)
next
  case (Cons s steps)
  then show ?case by (cases "snd s") (auto simp: and_then_def)
qed

lemma for_each_ok:
  "snd (for_each body xs) = Inr () \<longleftrightarrow> (\<forall>x \<in> set xs. snd (body x) = Inr ())"
  by (simp add: for_each_def run_seq_ok)

lemma for_each_events:
  "snd (for_each body xs) = Inr () \<Longrightarrow>
   fst (for_each body xs) = concat (map (\<lambda>x. fst (body x)) xs)"
  by (simp add: for_each_def run_seq_events comp_def)

lemma for_each_events_subset:
  "ev \<in> set (fst (for_each body xs)) \<Longrightarrow> \<exists>x \<in> set xs. ev \<in> set (fst (body x))"
  using run_seq_events_subset [of "map body xs"] by (auto simp: for_each_def)

section \<open>Properties of host programming\<close>

lemma static_arp_and_route_ok:
  "py_int py (drop 1 host_name) = Inr n \<Longrightarrow>
   static_arp_and_route py host_name i =
     ([Rename host_name (host_name @ ''-eth0''),
       Cmd host_name (arp_cmd (intf_name i) (sw_ip n) (peer_mac i)),
       Cmd host_name (''ethtool --offload '' @ intf_name i @ '' rx off tx off''),
       Cmd host_name (''ip route add '' @ sw_ip n @ '' dev '' @ intf_name i),
       SetDefaultRoute host_name (''via '' @ sw_ip n)], Inr ())"
  by (simp add: static_arp_and_route_def and_then_def emit_def done_io_def)

lemma static_arp_and_route_fail:
  "py_int py (drop 1 host_name) = Inl e \<Longrightarrow> static_arp_and_route py host_name i = ([], Inl e)"
  by (simp add: static_arp_and_route_def raise_def)

lemma static_arp_and_route_length:
  "snd (static_arp_and_route py host_name i) = Inr () \<Longrightarrow>
   length (fst (static_arp_and_route py host_name i)) = 5"
  by (cases "py_int py (drop 1 host_name)")
    (simp_all add: static_arp_and_route_ok static_arp_and_route_fail)

lemma arp_rule_self: "arp_rule py tp h i sw hn h = done_io"
  by (simp add: arp_rule_def)

lemma arp_rule_events:
  "ev \<in> set (fst (arp_rule py tp h i sw hn x)) \<Longrightarrow>
   x \<noteq> h \<and> (\<exists>other. hosts_info tp x = Some other \<and> info_sw other = sw
      \<and> network_compressed py (cidr (info_ip other) (info_mask other)) = Inr hn
      \<and> ev = Cmd h (arp_cmd (intf_name i) (info_ip other) (info_mac other)))"
  by (auto simp: arp_rule_def done_io_def raise_def emit_def
      split: if_splits option.splits sum.splits)

lemma arp_rule_same_network:
  "x \<noteq> h \<Longrightarrow> hosts_info tp x = Some other \<Longrightarrow> info_sw other = sw \<Longrightarrow>
   network_compressed py (cidr (info_ip other) (info_mask other)) = Inr hn \<Longrightarrow>
   arp_rule py tp h i sw hn x = emit (Cmd h (arp_cmd (intf_name i) (info_ip other) (info_mac other)))"
  by (simp add: arp_rule_def)

lemma arp_rule_other_network:
  "hosts_info tp x = Some other \<Longrightarrow>
   network_compressed py (cidr (info_ip other) (info_mask other)) \<noteq> Inr hn \<Longrightarrow>
   snd (arp_rule py tp h i sw hn x) = Inr () \<Longrightarrow>
   fst (arp_rule py tp h i sw hn x) = []"
  by (auto simp: arp_rule_def done_io_def raise_def emit_def split: if_splits sum.splits)

lemma program_host_unfold:
  "net_hosts nt h = Some lh \<Longrightarrow> intfs lh = i # others \<Longrightarrow>
   program_host py tp nt h =
     and_then (static_arp_and_route py h i) (arp_same_switch py tp h lh i)"
  by (simp add: program_host_def)

lemma arp_same_switch_unfold:
  "hosts_info tp h = Some info \<Longrightarrow>
   network_compressed py (cidr (IP lh) (info_mask info)) = Inr hn \<Longrightarrow>
   arp_same_switch py tp h lh i = for_each (arp_rule py tp h i (info_sw info) hn) (hosts tp)"
  by (simp add: arp_same_switch_def)

text \<open>What a host that is programmed without an exception has received.\<close>

lemma program_host_trace:
  assumes ok: "snd (program_host py tp nt h) = Inr ()"
    and h: "net_hosts nt h = Some lh" "intfs lh = i # others"
    and info: "hosts_info tp h = Some info"
    and hn: "network_compressed py (cidr (IP lh) (info_mask info)) = Inr hn"
  shows "fst (program_host py tp nt h) =
           fst (static_arp_and_route py h i)
           @ concat (map (\<lambda>x. fst (arp_rule py tp h i (info_sw info) hn x)) (hosts tp))"
    and "\<forall>x \<in> set (hosts tp). snd (arp_rule py tp h i (info_sw info) hn x) = Inr ()"
proof -
  have u: "program_host py tp nt h =
      and_then (static_arp_and_route py h i)
        (for_each (arp_rule py tp h i (info_sw info) hn) (hosts tp))"
    using h info hn by (simp add: program_host_unfold arp_same_switch_unfold)
  from ok have s: "snd (static_arp_and_route py h i) = Inr ()"
    and f: "snd (for_each (arp_rule py tp h i (info_sw info) hn) (hosts tp)) = Inr ()"
    by (simp_all add: u and_then_ok)
  show "fst (program_host py tp nt h) =
           fst (static_arp_and_route py h i)
           @ concat (map (\<lambda>x. fst (arp_rule py tp h i (info_sw info) hn x)) (hosts tp))"
    by (simp add: u and_then_events_ok [OF s] for_each_events [OF f])
  show "\<forall>x \<in> set (hosts tp). snd (arp_rule py tp h i (info_sw info) hn x) = Inr ()"
    using f by (simp add: for_each_ok)
qed

lemma program_hosts_trace:
  assumes "snd (program_hosts py tp nt) = Inr ()"
  shows "fst (program_hosts py tp nt) = concat (map (\<lambda>h. fst (program_host py tp nt h)) (hosts tp))"
    and "\<forall>h \<in> set (hosts tp). snd (program_host py tp nt h) = Inr ()"
  using assms by (simp_all add: program_hosts_def for_each_events for_each_ok)

lemma receives_entry:
  assumes ok: "snd (program_hosts py tp nt) = Inr ()"
    and ab: "a \<in> set (hosts tp)" "b \<in> set (hosts tp)" "a \<noteq> b"
    and ia: "hosts_info tp a = Some ia" and ib: "hosts_info tp b = Some ib"
    and sw: "info_sw ia = info_sw ib"
    and ha: "net_hosts nt a = Some ha" "intfs ha = fa # ra"
    and na: "network_compressed py (cidr (IP ha) (info_mask ia)) = Inr na"
    and eq: "network_compressed py (cidr (info_ip ib) (info_mask ib)) = Inr na"
  shows "Cmd a (arp_cmd (intf_name fa) (info_ip ib) (info_mac ib)) \<in> set (fst (program_hosts py tp nt))"
proof -
  have oka: "snd (program_host py tp nt a) = Inr ()"
    using program_hosts_trace(2) [OF ok] ab(1) by blast
  have r: "arp_rule py tp a fa (info_sw ia) na b =
      emit (Cmd a (arp_cmd (intf_name fa) (info_ip ib) (info_mac ib)))"
    using ab(3) ib sw eq by (simp add: arp_rule_same_network)
  have "Cmd a (arp_cmd (intf_name fa) (info_ip ib) (info_mac ib))
      \<in> set (fst (arp_rule py tp a fa (info_sw ia) na b))"
    by (simp add: r emit_def)
  then have "Cmd a (arp_cmd (intf_name fa) (info_ip ib) (info_mac ib))
      \<in> set (fst (program_host py tp nt a))"
    using ab(2) by (auto simp: program_host_trace(1) [OF oka ha ia na])
  then show ?thesis
    using ab(1) by (auto simp: program_hosts_trace(1) [OF ok])
qed

lemma no_entry_for_pair:
  assumes ok: "snd (program_hosts py tp nt) = Inr ()"
    and ab: "a \<in> set (hosts tp)" "b \<in> set (hosts tp)"
    and ia: "hosts_info tp a = Some ia" and ib: "hosts_info tp b = Some ib"
    and ha: "net_hosts nt a = Some ha" "intfs ha = fa # ra"
    and na: "network_compressed py (cidr (IP ha) (info_mask ia)) = Inr na"
    and ne: "network_compressed py (cidr (info_ip ib) (info_mask ib)) \<noteq> Inr na"
  shows "fst (arp_rule py tp a fa (info_sw ia) na b) = []"
proof -
  have oka: "snd (program_host py tp nt a) = Inr ()"
    using program_hosts_trace(2) [OF ok] ab(1) by blast
  have "snd (arp_rule py tp a fa (info_sw ia) na b) = Inr ()"
    using program_host_trace(2) [OF oka ha ia na] ab(2) by blast
  then show ?thesis
    using ib ne by (rule arp_rule_other_network [rotated 2])
qed

text \<open>
  C3. For a host whose identifier, after its first character, is read by \<^verbatim>\<open>int\<close> as
  \<open>n\<close>, the first five calls on the host are the renaming, the static ARP entry for
  \<open>10.0.n.254\<close>, the offload command, the route to \<open>10.0.n.254\<close> and the default route
  via \<open>10.0.n.254\<close>: whatever addresses the topology and the network hold. When
  \<^verbatim>\<open>program_hosts\<close> returns, these calls are among the calls of its run.
\<close>

theorem gateway_is_10_0_n_254:
  assumes n: "py_int py (drop 1 host_name) = Inr n"
    and h: "net_hosts nt host_name = Some h" "intfs h = i # others"
  shows "take 5 (fst (program_host py tp nt host_name)) =
           [Rename host_name (host_name @ ''-eth0''),
            Cmd host_name (''arp -i '' @ intf_name i @ '' -s '' @ (''10.0.'' @ format_d n @ ''.254'')
                             @ '' '' @ peer_mac i),
            Cmd host_name (''ethtool --offload '' @ intf_name i @ '' rx off tx off''),
            Cmd host_name (''ip route add '' @ (''10.0.'' @ format_d n @ ''.254'')
                             @ '' dev '' @ intf_name i),
            SetDefaultRoute host_name (''via '' @ (''10.0.'' @ format_d n @ ''.254''))]
     \<and> (snd (program_hosts py tp nt) = Inr () \<and> host_name \<in> set (hosts tp) \<longrightarrow>
          set (take 5 (fst (program_host py tp nt host_name))) \<subseteq> set (fst (program_hosts py tp nt)))"
proof (intro conjI impI)
  have s: "snd (static_arp_and_route py host_name i) = Inr ()"
    by (simp add: static_arp_and_route_ok [OF n])
  have "fst (program_host py tp nt host_name) =
      fst (static_arp_and_route py host_name i) @ fst (arp_same_switch py tp host_name h i)"
    by (simp add: program_host_unfold [OF h] and_then_events_ok [OF s])
  then show "take 5 (fst (program_host py tp nt host_name)) =
           [Rename host_name (host_name @ ''-eth0''),
            Cmd host_name (''arp -i '' @ intf_name i @ '' -s '' @ (''10.0.'' @ format_d n @ ''.254'')
                             @ '' '' @ peer_mac i),
            Cmd host_name (''ethtool --offload '' @ intf_name i @ '' rx off tx off''),
            Cmd host_name (''ip route add '' @ (''10.0.'' @ format_d n @ ''.254'')
                             @ '' dev '' @ intf_name i),
            SetDefaultRoute host_name (''via '' @ (''10.0.'' @ format_d n @ ''.254''))]"
    by (simp add: static_arp_and_route_ok [OF n] arp_cmd_def sw_ip_def)
next
  assume a: "snd (program_hosts py tp nt) = Inr () \<and> host_name \<in> set (hosts tp)"
  then have "set (fst (program_host py tp nt host_name)) \<subseteq> set (fst (program_hosts py tp nt))"
    by (auto simp: program_hosts_trace(1))
  then show "set (take 5 (fst (program_host py tp nt host_name))) \<subseteq> set (fst (program_hosts py tp nt))"
    using set_take_subset [of 5 "fst (program_host py tp nt host_name)"] by blast
qed

theorem gateway_is_10_0_n_254_witness:
  "py_int example_python (drop 1 ''h7'') = Inr 7
   \<and> net_hosts (example_net\<lparr>net_hosts := [''h7'' \<mapsto> example_host ''h7'' ''192.168.5.9'' ''00:aa:00:00:00:07'']\<rparr>) ''h7''
       = Some (example_host ''h7'' ''192.168.5.9'' ''00:aa:00:00:00:07'')
   \<and> intfs (example_host ''h7'' ''192.168.5.9'' ''00:aa:00:00:00:07'')
       = [\<lparr>intf_name = ''h7-eth0'', peer_mac = ''00:aa:00:00:00:07''\<rparr>]
   \<and> take 5 (fst (program_host example_python example_topo
         (example_net\<lparr>net_hosts := [''h7'' \<mapsto> example_host ''h7'' ''192.168.5.9'' ''00:aa:00:00:00:07'']\<rparr>) ''h7''))
       = [Rename ''h7'' ''h7-eth0'',
          Cmd ''h7'' ''arp -i h7-eth0 -s 10.0.7.254 00:aa:00:00:00:07'',
          Cmd ''h7'' ''ethtool --offload h7-eth0 rx off tx off'',
          Cmd ''h7'' ''ip route add 10.0.7.254 dev h7-eth0'',
          SetDefaultRoute ''h7'' ''via 10.0.7.254'']"
proof -
  have n: "py_int example_python (drop 1 ''h7'') = Inr 7"
    by (simp add: example_python_def decimal_def strip_def is_space_def digits_value_def)
  have h: "net_hosts (example_net\<lparr>net_hosts := [''h7'' \<mapsto> example_host ''h7'' ''192.168.5.9'' ''00:aa:00:00:00:07'']\<rparr>) ''h7''
       = Some (example_host ''h7'' ''192.168.5.9'' ''00:aa:00:00:00:07'')"
    by simp
  have i: "intfs (example_host ''h7'' ''192.168.5.9'' ''00:aa:00:00:00:07'')
       = [\<lparr>intf_name = ''h7-eth0'', peer_mac = ''00:aa:00:00:00:07''\<rparr>]"
    by (simp add: example_host_def)
  have d: "format_d 7 = ''7''"
    by (simp add: format_d_def digits.simps)
  show ?thesis
    using gateway_is_10_0_n_254 [OF n h i, of example_topo] n h i
    by (simp add: d)
qed

lemma example_digits: "format_d 24 = ''24''" "format_d 1 = ''1''" "format_d 2 = ''2''" "format_d 3 = ''3''"
  by (simp_all add: format_d_def digits.simps)

lemma example_hosts_ok: "snd (program_hosts example_python example_topo example_net) = Inr ()"
  by (simp add: program_hosts_def for_each_def program_host_def example_topo_def example_net_def
      example_host_def static_arp_and_route_def arp_same_switch_def arp_rule_def example_python_def
      decimal_def strip_def is_space_def digits_value_def example_network_def cidr_def
      example_digits and_then_def emit_def done_io_def
      raise_def)

lemma example_eval:
  "hosts example_topo = [''h1'', ''h2'', ''h3'']"
  "hosts_info example_topo ''h1'' = Some \<lparr>info_sw = ''s1'', info_ip = ''10.0.1.1'', info_mask = 24,
       info_mac = ''00:00:0a:00:01:01''\<rparr>"
  "hosts_info example_topo ''h2'' = Some \<lparr>info_sw = ''s1'', info_ip = ''10.0.1.2'', info_mask = 24,
       info_mac = ''00:00:0a:00:01:02''\<rparr>"
  "hosts_info example_topo ''h3'' = Some \<lparr>info_sw = ''s1'', info_ip = ''10.0.2.3'', info_mask = 24,
       info_mac = ''00:00:0a:00:02:03''\<rparr>"
  "net_hosts example_net ''h1'' = Some \<lparr>IP = ''10.0.1.1'', intfs = [\<lparr>intf_name = ''h1-eth0'', peer_mac = ''00:01:0a:00:01:01''\<rparr>]\<rparr>"
  "net_hosts example_net ''h2'' = Some \<lparr>IP = ''10.0.1.2'', intfs = [\<lparr>intf_name = ''h2-eth0'', peer_mac = ''00:01:0a:00:01:02''\<rparr>]\<rparr>"
  "net_hosts example_net ''h3'' = Some \<lparr>IP = ''10.0.2.3'', intfs = [\<lparr>intf_name = ''h3-eth0'', peer_mac = ''00:01:0a:00:02:03''\<rparr>]\<rparr>"
  by (simp_all add: example_topo_def example_net_def example_host_def)

lemma example_networks:
  "network_compressed example_python (cidr ''10.0.1.1'' 24) = Inr ''10.0.1.0/24''"
  "network_compressed example_python (cidr ''10.0.1.2'' 24) = Inr ''10.0.1.0/24''"
  "network_compressed example_python (cidr ''10.0.2.3'' 24) = Inr ''10.0.2.0/24''"
  by (simp_all add: example_python_def example_network_def cidr_def example_digits)

text \<open>
  C2. After \<^verbatim>\<open>program_hosts\<close> has returned, for two distinct hosts \<open>a\<close> and \<open>b\<close> of
  the topology on the same switch: \<open>a\<close> has received the static ARP entry of \<open>b\<close>'s
  address and MAC when the network of \<open>b\<close>'s address and mask is the network of \<open>a\<close>'s,
  and the step of \<open>a\<close>'s loop for \<open>b\<close> has issued nothing when it is not; the same with
  \<open>a\<close> and \<open>b\<close> exchanged. What a host receives is the five calls for the gateway and
  then what the steps of its loop issue, one host of the topology after the other. The
  network of the host being programmed is that of \<^verbatim>\<open>h.IP()\<close>; of the other host, that
  of the address in \<^verbatim>\<open>hosts_info\<close>.
\<close>

theorem same_switch_same_network_arp:
  assumes ok: "snd (program_hosts py tp nt) = Inr ()"
    and ab: "a \<in> set (hosts tp)" "b \<in> set (hosts tp)" "a \<noteq> b"
    and ia: "hosts_info tp a = Some ia" and ib: "hosts_info tp b = Some ib"
    and sw: "info_sw ia = info_sw ib"
    and ha: "net_hosts nt a = Some ha" "intfs ha = fa # ra"
    and hb: "net_hosts nt b = Some hb" "intfs hb = fb # rb"
    and na: "network_compressed py (cidr (IP ha) (info_mask ia)) = Inr na"
    and nb: "network_compressed py (cidr (IP hb) (info_mask ib)) = Inr nb"
  shows
    "(network_compressed py (cidr (info_ip ib) (info_mask ib)) = Inr na \<longrightarrow>
        Cmd a (arp_cmd (intf_name fa) (info_ip ib) (info_mac ib)) \<in> set (fst (program_hosts py tp nt)))
     \<and> (network_compressed py (cidr (info_ip ia) (info_mask ia)) = Inr nb \<longrightarrow>
        Cmd b (arp_cmd (intf_name fb) (info_ip ia) (info_mac ia)) \<in> set (fst (program_hosts py tp nt)))
     \<and> (network_compressed py (cidr (info_ip ib) (info_mask ib)) \<noteq> Inr na \<longrightarrow>
        fst (arp_rule py tp a fa (info_sw ia) na b) = [])
     \<and> (network_compressed py (cidr (info_ip ia) (info_mask ia)) \<noteq> Inr nb \<longrightarrow>
        fst (arp_rule py tp b fb (info_sw ib) nb a) = [])
     \<and> fst (program_host py tp nt a) =
          fst (static_arp_and_route py a fa)
          @ concat (map (\<lambda>x. fst (arp_rule py tp a fa (info_sw ia) na x)) (hosts tp))
     \<and> fst (program_host py tp nt b) =
          fst (static_arp_and_route py b fb)
          @ concat (map (\<lambda>x. fst (arp_rule py tp b fb (info_sw ib) nb x)) (hosts tp))"
proof (intro conjI impI)
  assume "network_compressed py (cidr (info_ip ib) (info_mask ib)) = Inr na"
  then show "Cmd a (arp_cmd (intf_name fa) (info_ip ib) (info_mac ib)) \<in> set (fst (program_hosts py tp nt))"
    using receives_entry [OF ok ab ia ib sw ha na] by simp
next
  assume "network_compressed py (cidr (info_ip ia) (info_mask ia)) = Inr nb"
  then show "Cmd b (arp_cmd (intf_name fb) (info_ip ia) (info_mac ia)) \<in> set (fst (program_hosts py tp nt))"
    using receives_entry [OF ok ab(2) ab(1) ab(3) [symmetric] ib ia sw [symmetric] hb nb] by simp
next
  assume "network_compressed py (cidr (info_ip ib) (info_mask ib)) \<noteq> Inr na"
  then show "fst (arp_rule py tp a fa (info_sw ia) na b) = []"
    using no_entry_for_pair [OF ok ab(1) ab(2) ia ib ha na] by simp
next
  assume "network_compressed py (cidr (info_ip ia) (info_mask ia)) \<noteq> Inr nb"
  then show "fst (arp_rule py tp b fb (info_sw ib) nb a) = []"
    using no_entry_for_pair [OF ok ab(2) ab(1) ib ia hb nb] by simp
next
  have "snd (program_host py tp nt a) = Inr ()"
    using program_hosts_trace(2) [OF ok] ab(1) by blast
  then show "fst (program_host py tp nt a) =
          fst (static_arp_and_route py a fa)
          @ concat (map (\<lambda>x. fst (arp_rule py tp a fa (info_sw ia) na x)) (hosts tp))"
    by (rule program_host_trace(1) [OF _ ha ia na])
next
  have "snd (program_host py tp nt b) = Inr ()"
    using program_hosts_trace(2) [OF ok] ab(2) by blast
  then show "fst (program_host py tp nt b) =
          fst (static_arp_and_route py b fb)
          @ concat (map (\<lambda>x. fst (arp_rule py tp b fb (info_sw ib) nb x)) (hosts tp))"
    by (rule program_host_trace(1) [OF _ hb ib nb])
qed

theorem same_switch_same_network_arp_witness:
  "snd (program_hosts example_python example_topo example_net) = Inr ()
   \<and> Cmd ''h1'' ''arp -i h1-eth0 -s 10.0.1.2 00:00:0a:00:01:02''
        \<in> set (fst (program_hosts example_python example_topo example_net))
   \<and> Cmd ''h2'' ''arp -i h2-eth0 -s 10.0.1.1 00:00:0a:00:01:01''
        \<in> set (fst (program_hosts example_python example_topo example_net))
   \<and> fst (arp_rule example_python example_topo ''h1''
           \<lparr>intf_name = ''h1-eth0'', peer_mac = ''00:01:0a:00:01:01''\<rparr> ''s1'' ''10.0.1.0/24'' ''h3'') = []
   \<and> fst (arp_rule example_python example_topo ''h3''
           \<lparr>intf_name = ''h3-eth0'', peer_mac = ''00:01:0a:00:02:03''\<rparr> ''s1'' ''10.0.2.0/24'' ''h1'') = []"
proof -
  have ok: "snd (program_hosts example_python example_topo example_net) = Inr ()"
    by (rule example_hosts_ok)
  have m: "''h1'' \<in> set (hosts example_topo)" "''h2'' \<in> set (hosts example_topo)"
    "''h3'' \<in> set (hosts example_topo)" "''h1'' \<noteq> ''h2''" "''h1'' \<noteq> ''h3''"
    by (simp_all add: example_eval)
  have i: "intfs \<lparr>IP = ''10.0.1.1'', intfs = [\<lparr>intf_name = ''h1-eth0'', peer_mac = ''00:01:0a:00:01:01''\<rparr>]\<rparr>
        = \<lparr>intf_name = ''h1-eth0'', peer_mac = ''00:01:0a:00:01:01''\<rparr> # []"
    "intfs \<lparr>IP = ''10.0.1.2'', intfs = [\<lparr>intf_name = ''h2-eth0'', peer_mac = ''00:01:0a:00:01:02''\<rparr>]\<rparr>
        = \<lparr>intf_name = ''h2-eth0'', peer_mac = ''00:01:0a:00:01:02''\<rparr> # []"
    "intfs \<lparr>IP = ''10.0.2.3'', intfs = [\<lparr>intf_name = ''h3-eth0'', peer_mac = ''00:01:0a:00:02:03''\<rparr>]\<rparr>
        = \<lparr>intf_name = ''h3-eth0'', peer_mac = ''00:01:0a:00:02:03''\<rparr> # []"
    by simp_all
  have same:
    "Cmd ''h1'' ''arp -i h1-eth0 -s 10.0.1.2 00:00:0a:00:01:02''
        \<in> set (fst (program_hosts example_python example_topo example_net))
     \<and> Cmd ''h2'' ''arp -i h2-eth0 -s 10.0.1.1 00:00:0a:00:01:01''
        \<in> set (fst (program_hosts example_python example_topo example_net))"
    using same_switch_same_network_arp [OF ok m(1) m(2) m(4) example_eval(2) example_eval(3) _
        example_eval(5) i(1) example_eval(6) i(2), of "''10.0.1.0/24''" "''10.0.1.0/24''"]
    by (simp add: example_networks arp_cmd_def)
  have other:
    "fst (arp_rule example_python example_topo ''h1''
           \<lparr>intf_name = ''h1-eth0'', peer_mac = ''00:01:0a:00:01:01''\<rparr> ''s1'' ''10.0.1.0/24'' ''h3'') = []
     \<and> fst (arp_rule example_python example_topo ''h3''
           \<lparr>intf_name = ''h3-eth0'', peer_mac = ''00:01:0a:00:02:03''\<rparr> ''s1'' ''10.0.2.0/24'' ''h1'') = []"
    using same_switch_same_network_arp [OF ok m(1) m(3) m(5) example_eval(2) example_eval(4) _
        example_eval(5) i(1) example_eval(7) i(3), of "''10.0.1.0/24''" "''10.0.2.0/24''"]
    by (simp add: example_networks)
  from ok same other show ?thesis by simp
qed

lemma arp_same_switch_events:
  assumes ev: "ev \<in> set (fst (arp_same_switch py tp h lh i))"
  shows "\<exists>x \<in> set (hosts tp). x \<noteq> h \<and>
          (\<exists>ih ix. hosts_info tp h = Some ih \<and> hosts_info tp x = Some ix \<and> info_sw ix = info_sw ih
             \<and> ev = Cmd h (arp_cmd (intf_name i) (info_ip ix) (info_mac ix)))"
proof -
  from ev obtain ih where ih: "hosts_info tp h = Some ih"
    by (cases "hosts_info tp h") (auto simp: arp_same_switch_def raise_def)
  from ev ih obtain hn' where hn': "network_compressed py (cidr (IP lh) (info_mask ih)) = Inr hn'"
    by (cases "network_compressed py (cidr (IP lh) (info_mask ih))")
      (auto simp: arp_same_switch_def raise_def)
  from ev have "ev \<in> set (fst (for_each (arp_rule py tp h i (info_sw ih) hn') (hosts tp)))"
    by (simp add: arp_same_switch_unfold [OF ih hn'])
  then obtain x where x: "x \<in> set (hosts tp)" "ev \<in> set (fst (arp_rule py tp h i (info_sw ih) hn' x))"
    using for_each_events_subset by blast
  from arp_rule_events [OF x(2)] ih x(1) show ?thesis
    by blast
qed

text \<open>
  C10. The step of the inner loop for the host being programmed issues nothing. Every
  call that the inner loop makes on a host \<open>h\<close> is the static ARP entry of another host
  of the topology, of a different name, on the switch of \<open>h\<close>; and what the loop body of
  \<open>h\<close> issues after its first five calls comes from the inner loop.
\<close>

theorem provisioned_host_is_skipped:
  "arp_rule py tp h i sw hn h = done_io
   \<and> (\<forall>ev \<in> set (fst (arp_same_switch py tp h lh i)).
        \<exists>x \<in> set (hosts tp). x \<noteq> h \<and>
          (\<exists>ih ix. hosts_info tp h = Some ih \<and> hosts_info tp x = Some ix \<and> info_sw ix = info_sw ih
             \<and> ev = Cmd h (arp_cmd (intf_name i) (info_ip ix) (info_mac ix))))
   \<and> (net_hosts nt h = Some lh \<and> intfs lh = i # others \<longrightarrow>
        set (drop 5 (fst (program_host py tp nt h))) \<subseteq> set (fst (arp_same_switch py tp h lh i)))"
proof (intro conjI ballI impI)
  show "arp_rule py tp h i sw hn h = done_io"
    by (rule arp_rule_self)
next
  fix ev assume "ev \<in> set (fst (arp_same_switch py tp h lh i))"
  then show "\<exists>x \<in> set (hosts tp). x \<noteq> h \<and>
          (\<exists>ih ix. hosts_info tp h = Some ih \<and> hosts_info tp x = Some ix \<and> info_sw ix = info_sw ih
             \<and> ev = Cmd h (arp_cmd (intf_name i) (info_ip ix) (info_mac ix)))"
    by (rule arp_same_switch_events)
next
  assume a: "net_hosts nt h = Some lh \<and> intfs lh = i # others"
  then have u: "program_host py tp nt h =
      and_then (static_arp_and_route py h i) (arp_same_switch py tp h lh i)"
    by (simp add: program_host_unfold)
  show "set (drop 5 (fst (program_host py tp nt h))) \<subseteq> set (fst (arp_same_switch py tp h lh i))"
  proof (cases "py_int py (drop 1 h)")
    case (Inl e)
    then show ?thesis
      by (simp add: u static_arp_and_route_fail and_then_def)
  next
    case (Inr n)
    then show ?thesis
      by (simp add: u static_arp_and_route_ok and_then_def)
  qed
qed

theorem provisioned_host_is_skipped_witness:
  "fst (arp_same_switch example_python example_topo ''h1''
          \<lparr>IP = ''10.0.1.1'', intfs = [\<lparr>intf_name = ''h1-eth0'', peer_mac = ''00:01:0a:00:01:01''\<rparr>]\<rparr>
          \<lparr>intf_name = ''h1-eth0'', peer_mac = ''00:01:0a:00:01:01''\<rparr>)
     = [Cmd ''h1'' ''arp -i h1-eth0 -s 10.0.1.2 00:00:0a:00:01:02'']
   \<and> arp_rule example_python example_topo ''h1''
          \<lparr>intf_name = ''h1-eth0'', peer_mac = ''00:01:0a:00:01:01''\<rparr> ''s1'' ''10.0.1.0/24'' ''h1''
     = done_io
   \<and> (\<exists>x. x \<in> set (hosts example_topo) \<and> x \<noteq> ''h1''
        \<and> (\<exists>ih ix. hosts_info example_topo ''h1'' = Some ih \<and> hosts_info example_topo x = Some ix
              \<and> info_sw ix = info_sw ih
              \<and> Cmd ''h1'' ''arp -i h1-eth0 -s 10.0.1.2 00:00:0a:00:01:02''
                  = Cmd ''h1'' (arp_cmd ''h1-eth0'' (info_ip ix) (info_mac ix))))"
proof -
  have e: "fst (arp_same_switch example_python example_topo ''h1''
          \<lparr>IP = ''10.0.1.1'', intfs = [\<lparr>intf_name = ''h1-eth0'', peer_mac = ''00:01:0a:00:01:01''\<rparr>]\<rparr>
          \<lparr>intf_name = ''h1-eth0'', peer_mac = ''00:01:0a:00:01:01''\<rparr>)
     = [Cmd ''h1'' ''arp -i h1-eth0 -s 10.0.1.2 00:00:0a:00:01:02'']"
    by (simp add: arp_same_switch_def for_each_def arp_rule_def example_topo_def
        example_python_def example_network_def cidr_def example_digits and_then_def emit_def
        done_io_def raise_def arp_cmd_def)
  have t: "arp_rule example_python example_topo ''h1''
          \<lparr>intf_name = ''h1-eth0'', peer_mac = ''00:01:0a:00:01:01''\<rparr> ''s1'' ''10.0.1.0/24'' ''h1''
       = done_io
     \<and> (\<forall>ev \<in> set [Cmd ''h1'' ''arp -i h1-eth0 -s 10.0.1.2 00:00:0a:00:01:02''].
        \<exists>x \<in> set (hosts example_topo). x \<noteq> ''h1'' \<and>
          (\<exists>ih ix. hosts_info example_topo ''h1'' = Some ih \<and> hosts_info example_topo x = Some ix
             \<and> info_sw ix = info_sw ih
             \<and> ev = Cmd ''h1'' (arp_cmd ''h1-eth0'' (info_ip ix) (info_mac ix))))"
    using provisioned_host_is_skipped [of example_python example_topo "''h1''"
        "\<lparr>intf_name = ''h1-eth0'', peer_mac = ''00:01:0a:00:01:01''\<rparr>" "''s1''" "''10.0.1.0/24''"
        "\<lparr>IP = ''10.0.1.1'', intfs = [\<lparr>intf_name = ''h1-eth0'', peer_mac = ''00:01:0a:00:01:01''\<rparr>]\<rparr>"
        example_net "[]"]
    unfolding e by simp
  from e t show ?thesis by (simp add: Bex_def)
qed


section \<open>Properties of switch programming\<close>

lemma observed_append: "observed port (xs @ ys) = observed port xs @ observed port ys"
  by (induction port xs rule: observed.induct) auto

lemma observed_concat:
  "observed port (concat xss) = concat (map (observed port) xss)"
  by (induction xss) (auto simp: observed_append)

lemma concat_only_one:
  "distinct xs \<Longrightarrow> x0 \<in> set xs \<Longrightarrow> (\<And>x. x \<in> set xs \<Longrightarrow> x \<noteq> x0 \<Longrightarrow> f x = []) \<Longrightarrow>
   concat (map f xs) = f x0"
proof (induction xs)
  case Nil
  then show ?case by simp
next
  case (Cons x xs)
  show ?case
  proof (cases "x = x0")
    case True
    with Cons.prems have "\<And>y. y \<in> set xs \<Longrightarrow> f y = []" by auto
    then have "concat (map f xs) = []" by simp
    with True show ?thesis by simp
  next
    case False
    with Cons show ?thesis by auto
  qed
qed

lemma program_switch_no_file:
  "cli_input sw_d = None \<Longrightarrow> program_switch w app cli (sw_name, sw_d) = done_io"
  by (simp add: program_switch_def)

lemma program_switch_ok:
  assumes "snd (program_switch w app cli (sw_name, sw_d)) = Inr ()"
    and "cli_input sw_d = Some file"
  shows "\<exists>port entries. net_switches (started_net w) sw_name = Some port
           \<and> entries_of_file w file = Some entries
           \<and> fst (program_switch w app cli (sw_name, sw_d)) =
               [AddEntries port entries
                  (if log_enabled app then Some (log_dir app @ ''/'' @ sw_name @ ''_cli_output.log'')
                   else None) cli]"
  using assms
  by (auto simp: program_switch_def Let_def raise_def bind_io_def read_entries_def return_io_def
      add_entries_def emit_def split: option.splits)

lemma program_switch_events:
  "ev \<in> set (fst (program_switch w app cli (sw_name, sw_d))) \<Longrightarrow>
   \<exists>port entries outfile. net_switches (started_net w) sw_name = Some port
        \<and> ev = AddEntries port entries outfile cli"
  by (auto simp: program_switch_def Let_def raise_def bind_io_def read_entries_def return_io_def
      add_entries_def emit_def done_io_def split: option.splits)

lemma observed_other_port:
  "(\<And>entries outfile cli. AddEntries port entries outfile cli \<notin> set evs) \<Longrightarrow> observed port evs = []"
  by (induction port evs rule: observed.induct) auto

text \<open>
  C5. After \<^verbatim>\<open>program_switches\<close> has returned, for a switch that declares a command
  file: the endpoint at the switch's port has observed exactly the entries read from the
  file, in the order of the file. The names of the switches are distinct, as the keys
  of a dictionary are, and no other switch of the document has the port of this one.
\<close>

theorem entries_applied_in_file_order:
  assumes ok: "snd (program_switches w app) = Inr ()"
    and sw: "(sw_name, sw_d) \<in> set (switches app)" "cli_input sw_d = Some file"
    and names: "distinct (map fst (switches app))"
    and ports: "\<forall>n \<in> fst ` set (switches app). n \<noteq> sw_name \<longrightarrow>
                  net_switches (started_net w) n \<noteq> net_switches (started_net w) sw_name"
  shows "\<exists>port entries. net_switches (started_net w) sw_name = Some port
           \<and> entries_of_file w file = Some entries
           \<and> observed port (fst (program_switches w app)) = entries"
proof -
  from ok obtain cli where cli: "c_switch_cli (app_conf app) = Some cli"
    by (cases "c_switch_cli (app_conf app)") (auto simp: program_switches_def raise_def)
  have u: "program_switches w app = for_each (program_switch w app cli) (switches app)"
    by (simp add: program_switches_def cli)
  from ok have all: "\<forall>x \<in> set (switches app). snd (program_switch w app cli x) = Inr ()"
    by (simp add: u for_each_ok)
  have tr: "fst (program_switches w app) =
      concat (map (\<lambda>x. fst (program_switch w app cli x)) (switches app))"
    using ok by (simp add: u for_each_events)
  from all sw(1) have "snd (program_switch w app cli (sw_name, sw_d)) = Inr ()" by blast
  from program_switch_ok [OF this sw(2)]
  obtain port entries where p: "net_switches (started_net w) sw_name = Some port"
    and e: "entries_of_file w file = Some entries"
    and f: "fst (program_switch w app cli (sw_name, sw_d)) =
               [AddEntries port entries
                  (if log_enabled app then Some (log_dir app @ ''/'' @ sw_name @ ''_cli_output.log'')
                   else None) cli]"
    by blast
  have d: "distinct (switches app)"
    using names by (simp add: distinct_map)
  have others: "observed port (fst (program_switch w app cli x)) = []"
    if x: "x \<in> set (switches app)" "x \<noteq> (sw_name, sw_d)" for x
  proof -
    obtain n sd where nx: "x = (n, sd)" by (cases x) auto
    have "n \<noteq> sw_name"
    proof
      assume n: "n = sw_name"
      from names have "inj_on fst (set (switches app))"
        by (simp add: distinct_map)
      from inj_onD [OF this, of x "(sw_name, sw_d)"] x(1) sw(1) nx n
      have "x = (sw_name, sw_d)" by simp
      with x(2) show False by simp
    qed
    with ports x(1) nx p have np: "net_switches (started_net w) n \<noteq> Some port"
      by force
    show ?thesis
    proof (rule observed_other_port)
      fix entries' outfile cli'
      show "AddEntries port entries' outfile cli' \<notin> set (fst (program_switch w app cli x))"
        using program_switch_events [of _ w app cli n sd] np nx by auto
    qed
  qed
  have "observed port (fst (program_switches w app)) =
      concat (map (\<lambda>x. observed port (fst (program_switch w app cli x))) (switches app))"
    by (simp add: tr observed_concat comp_def)
  also have "\<dots> = observed port (fst (program_switch w app cli (sw_name, sw_d)))"
    using d sw(1) others by (rule concat_only_one)
  also have "\<dots> = entries"
    by (simp add: f)
  finally show ?thesis using p e by blast
qed

section \<open>The example, evaluated\<close>

lemma example_links:
  "parse_links example_python
     [(''h1'', ''s1'', []), (''s1'', ''h2'', []), (''h3'', ''s1'', []),
      (''s1'', ''s2'', [JStr [], JNull, JInt 5])] = Inr (links example_app)"
  by (simp add: parse_links_def parse_link_def check_link_def link_fields_def example_app_def)

lemma example_prepare:
  "prepare_dirs example_world example_conf example_args ''simple_switch'' = ([Sh ''killall simple_switch''], Inr ())"
  by (simp add: prepare_dirs_def example_conf_def get_flag_def and_then_def emit_def done_io_def)

lemma example_builders:
  "set_builders example_world example_conf example_args = ([SetEnv ''P4APP_LOGDIR'' ''log''], Inr ())"
  by (simp add: set_builders_def example_conf_def example_args_def custom_object_def get_flag_def and_then_def emit_def done_io_def)

lemma example_topology:
  "load_topology example_python example_conf = Inr (app_hosts example_app, switches example_app, links example_app)"
  using example_links
  by (simp add: load_topology_def example_conf_def example_app_def)


lemma example_world_fields:
  "conf_isfile example_world" "load_conf example_world = Inr example_conf"
  "default_switch example_world = ''simple_switch''" "c_switch example_conf = None"
  "c_enable_log example_conf = None" "c_pcap_dump example_conf = None"
  "c_cli example_conf = None" "c_switch_cli example_conf = Some ''simple_switch_CLI''"
  "built_topo example_world = example_topo" "started_net example_world = example_net"
  "compile_outcome example_world = None" "create_outcome example_world = None"
  "start_outcome example_world = None" "save_outcome example_world = None"
  "cli_outcome example_world = None" "stop_outcome example_world = None"
  by (simp_all add: example_world_def example_conf_def)

lemma example_init:
  "init example_world example_python example_args =
     ([Sh ''killall simple_switch'', SetEnv ''P4APP_LOGDIR'' ''log''], Inr example_app)"
  by (simp add: init_def Let_def example_world_fields example_prepare example_topology
      example_builders and_then_def return_io_def)
    (simp add: example_app_def example_args_def get_flag_def)

lemma example_switches_ok:
  "program_switches example_world example_app =
     ([AddEntries 9090 [''A'', ''B'', ''C''] None ''simple_switch_CLI''], Inr ())"
  by (simp add: program_switches_def for_each_def program_switch_def example_world_def
      example_app_def example_conf_def example_net_def read_entries_def add_entries_def
      bind_io_def return_io_def and_then_def emit_def done_io_def)

theorem entries_applied_in_file_order_witness:
  "snd (program_switches example_world example_app) = Inr ()
   \<and> (''s1'', \<lparr>cli_input = Some ''s1-commands.txt''\<rparr>) \<in> set (switches example_app)
   \<and> net_switches (started_net example_world) ''s1'' = Some 9090
   \<and> entries_of_file example_world ''s1-commands.txt'' = Some [''A'', ''B'', ''C'']
   \<and> observed 9090 (fst (program_switches example_world example_app)) = [''A'', ''B'', ''C'']"
proof -
  have ok: "snd (program_switches example_world example_app) = Inr ()"
    by (simp add: example_switches_ok)
  have sw: "(''s1'', \<lparr>cli_input = Some ''s1-commands.txt''\<rparr>) \<in> set (switches example_app)"
    "cli_input \<lparr>cli_input = Some ''s1-commands.txt''\<rparr> = Some ''s1-commands.txt''"
    "distinct (map fst (switches example_app))"
    by (simp_all add: example_app_def)
  have ports: "\<forall>n \<in> fst ` set (switches example_app). n \<noteq> ''s1'' \<longrightarrow>
      net_switches (started_net example_world) n \<noteq> net_switches (started_net example_world) ''s1''"
    by (simp add: example_app_def example_world_def example_net_def)
  have p: "net_switches (started_net example_world) ''s1'' = Some 9090"
    "entries_of_file example_world ''s1-commands.txt'' = Some [''A'', ''B'', ''C'']"
    by (simp_all add: example_world_def example_net_def)
  from entries_applied_in_file_order [OF ok sw(1) sw(2) sw(3) ports] p
  have "observed 9090 (fst (program_switches example_world example_app)) = [''A'', ''B'', ''C'']"
    by auto
  with ok sw(1) p show ?thesis by simp
qed

section \<open>Properties of construction\<close>

lemma call_events: "set (fst (call ev outcome)) = {ev}"
  by (cases outcome) (auto simp: call_def and_then_def emit_def done_io_def raise_def)

lemma ensure_dir_events: "set (fst (ensure_dir w kind dir)) \<subseteq> {Mkdir dir}"
  using call_events [of "Mkdir dir" "mkdir_outcome w dir"]
  by (auto simp: ensure_dir_def raise_def done_io_def)

lemma custom_object_events: "set (fst (custom_object w v key)) \<subseteq> {LoadCustomObject key}"
  using call_events [of "LoadCustomObject key" "custom_object_outcome w key"]
  by (auto simp: custom_object_def done_io_def)

lemma prepare_dirs_events:
  "set (fst (prepare_dirs w cf a exe))
     \<subseteq> {Sh (''killall '' @ exe), Mkdir (arg_log_dir a), Mkdir (arg_pcap_dir a)}"
proof
  fix ev assume "ev \<in> set (fst (prepare_dirs w cf a exe))"
  then obtain s where s: "s \<in> set [emit (Sh (''killall '' @ exe)),
        if get_flag (c_enable_log cf)
        then ensure_dir w (log_dir_kind w) (arg_log_dir a) else done_io,
        if get_flag (c_pcap_dump cf)
        then ensure_dir w (pcap_dir_kind w) (arg_pcap_dir a) else done_io]"
      and ev: "ev \<in> set (fst s)"
    unfolding prepare_dirs_def using run_seq_events_subset by blast
  from s ev show "ev \<in> {Sh (''killall '' @ exe), Mkdir (arg_log_dir a), Mkdir (arg_pcap_dir a)}"
    using ensure_dir_events [of w "log_dir_kind w" "arg_log_dir a"]
      ensure_dir_events [of w "pcap_dir_kind w" "arg_pcap_dir a"]
    by (auto simp: emit_def done_io_def split: if_splits)
qed

lemma set_builders_events:
  "set (fst (set_builders w cf a))
     \<subseteq> {SetEnv ''P4APP_LOGDIR'' (arg_log_dir a), LoadCustomObject ''topo_module'',
         LoadCustomObject ''controller_module'', LoadCustomObject ''topodb_module'',
         LoadCustomObject ''mininet_module''}"
proof
  fix ev assume "ev \<in> set (fst (set_builders w cf a))"
  then obtain s where s: "s \<in> set [emit (SetEnv ''P4APP_LOGDIR'' (arg_log_dir a)),
        custom_object w (c_topo_module cf) ''topo_module'',
        custom_object w (c_controller_module cf) ''controller_module'',
        custom_object w (c_topodb_module cf) ''topodb_module'',
        custom_object w (c_mininet_module cf) ''mininet_module'']"
      and ev: "ev \<in> set (fst s)"
    unfolding set_builders_def using run_seq_events_subset by blast
  from s ev show "ev \<in> {SetEnv ''P4APP_LOGDIR'' (arg_log_dir a), LoadCustomObject ''topo_module'',
         LoadCustomObject ''controller_module'', LoadCustomObject ''topodb_module'',
         LoadCustomObject ''mininet_module''}"
    using custom_object_events [of w "c_topo_module cf" "''topo_module''"]
      custom_object_events [of w "c_controller_module cf" "''controller_module''"]
      custom_object_events [of w "c_topodb_module cf" "''topodb_module''"]
      custom_object_events [of w "c_mininet_module cf" "''mininet_module''"]
    by (auto simp: emit_def)
qed

lemma init_unfold:
  assumes "conf_isfile w" "load_conf w = Inr cf"
  shows "init w py a =
     and_then (prepare_dirs w cf a (case c_switch cf of None \<Rightarrow> default_switch w | Some s \<Rightarrow> s))
       (case load_topology py cf of
          Inl e \<Rightarrow> raise e
        | Inr r \<Rightarrow>
            and_then (set_builders w cf a)
              (return_io
                 \<lparr>conf_file = arg_config a, app_conf = cf, cli_enabled = arg_cli a,
                  pcap_dir = arg_pcap_dir a, log_dir = arg_log_dir a,
                  bmv2_exe = (case c_switch cf of None \<Rightarrow> default_switch w | Some s \<Rightarrow> s),
                  log_enabled = get_flag (c_enable_log cf),
                  pcap_dump = get_flag (c_pcap_dump cf),
                  app_hosts = fst r, switches = fst (snd r), links = snd (snd r)\<rparr>))"
  using assms by (simp add: init_def Let_def case_prod_beta split: sum.splits)

lemma init_no_start: "NetStart \<notin> set (fst (init w py a))"
proof (cases "conf_isfile w")
  case False
  then show ?thesis by (simp add: init_def raise_def)
next
  case True
  show ?thesis
  proof (cases "load_conf w")
    case (Inl e)
    with True show ?thesis by (simp add: init_def raise_def)
  next
    case (Inr cf)
    have p: "NetStart \<notin> set (fst (prepare_dirs w cf a exe))" for exe
      using prepare_dirs_events [of w cf a exe] by auto
    have b: "NetStart \<notin> set (fst (set_builders w cf a))"
      using set_builders_events [of w cf a] by auto
    have k: "NetStart \<notin> set (fst (case load_topology py cf of
          Inl e \<Rightarrow> raise e
        | Inr r \<Rightarrow> and_then (set_builders w cf a) (return_io (f r))))" for f :: "_ \<Rightarrow> app_runner"
    proof (cases "load_topology py cf")
      case (Inl e)
      then show ?thesis by (simp add: raise_def)
    next
      case (Inr r)
      then show ?thesis
        using b and_then_events_subset [of "set_builders w cf a" "return_io (f r)"]
        by (auto simp: return_io_def)
    qed
    show ?thesis
      unfolding init_unfold [OF True Inr]
      using p k and_then_events_subset [of "prepare_dirs w cf a
          (case c_switch cf of None \<Rightarrow> default_switch w | Some s \<Rightarrow> s)"]
      by fast
  qed
qed



lemma main_no_start:
  assumes "\<And>app. snd (init w py a) \<noteq> Inr app"
  shows "NetStart \<notin> set (fst (main w py a))"
proof -
  obtain e where e: "snd (init w py a) = Inl e"
    using assms by (cases "snd (init w py a)") auto
  then have b: "bind_io (init w py a) (run_app w py) = (fst (init w py a), Inl e)"
    by (simp add: bind_io_def)
  have "set (fst (main w py a)) \<subseteq> {Cleanup, Sh (''rm -rf '' @ arg_pcap_dir a),
      Sh (''rm -rf '' @ arg_log_dir a), Sh ''rm -f topology.db''} \<union> set (fst (init w py a))"
    by (auto simp: main_def b and_then_def emit_def done_io_def split: if_splits)
  then show ?thesis using init_no_start [of w py a] by auto
qed

lemma and_then_raise: "\<exists>e'. snd (and_then m (raise e)) = Inl e'"
  by (cases "snd m") (auto simp: and_then_def raise_def)

lemma mentions_prefix: "mentions sub (sub @ rest)"
proof (cases "sub @ rest")
  case Nil
  then show ?thesis by simp
next
  case (Cons c cs)
  have "take (length sub) (c # cs) = sub"
    unfolding Cons [symmetric] by simp
  then show ?thesis
    unfolding Cons by simp
qed

lemma ensure_dir_result:
  "snd (ensure_dir w kind dir) =
     (if kind = Directory then Inr ()
      else if kind = NotDirectory
      then Inl (Exception ([CHR 0x27] @ dir @ [CHR 0x27] @ '' exists and is not a directory!''))
      else (case mkdir_outcome w dir of None \<Rightarrow> Inr () | Some e \<Rightarrow> Inl e))"
  by (cases kind; cases "mkdir_outcome w dir")
    (simp_all add: ensure_dir_def raise_def done_io_def call_def and_then_def emit_def)

lemma prepare_dirs_log_fails:
  "get_flag (c_enable_log cf) \<Longrightarrow> snd (ensure_dir w (log_dir_kind w) (arg_log_dir a)) = Inl e \<Longrightarrow>
   snd (prepare_dirs w cf a exe) = Inl e"
  by (simp add: prepare_dirs_def and_then_def emit_def)

lemma prepare_dirs_pcap_fails:
  "get_flag (c_enable_log cf) \<longrightarrow> snd (ensure_dir w (log_dir_kind w) (arg_log_dir a)) = Inr () \<Longrightarrow>
   get_flag (c_pcap_dump cf) \<Longrightarrow> snd (ensure_dir w (pcap_dir_kind w) (arg_pcap_dir a)) = Inl e \<Longrightarrow>
   snd (prepare_dirs w cf a exe) = Inl e"
  by (simp add: prepare_dirs_def and_then_def emit_def done_io_def)

text \<open>
  C6 (amended). When the configuration file is there and the document loaded from it has
  no \<^verbatim>\<open>topology\<close> block, the constructor raises an exception and \<^verbatim>\<open>main\<close> never
  calls \<^verbatim>\<open>net.start()\<close>. When the checks of the log directory and of the pcap
  directory pass (or the document does not enable them), the exception is the
  \<^verbatim>\<open>Exception\<close> of the topology check, and its message names \<open>topology\<close>. When the
  check of the log directory raises, or it passes and the check of the pcap directory
  raises, the constructor raises that exception: for a path that exists and is no
  directory the \<^verbatim>\<open>Exception\<close> that says so, for a missing directory what
  \<^verbatim>\<open>os.mkdir\<close> raises.
\<close>

theorem missing_topology_fails_before_start:
  assumes f: "conf_isfile w" and cf: "load_conf w = Inr cf" and t: "c_topology cf = None"
  shows "(\<exists>e. snd (init w py a) = Inl e)
     \<and> NetStart \<notin> set (fst (main w py a))
     \<and> ((get_flag (c_enable_log cf) \<longrightarrow> snd (ensure_dir w (log_dir_kind w) (arg_log_dir a)) = Inr ())
          \<and> (get_flag (c_pcap_dump cf) \<longrightarrow> snd (ensure_dir w (pcap_dir_kind w) (arg_pcap_dir a)) = Inr ())
        \<longrightarrow> snd (init w py a) =
              Inl (Exception (''topology to create is not defined in '' @ py_str_conf py cf)))
     \<and> mentions ''topology'' (''topology to create is not defined in '' @ py_str_conf py cf)
     \<and> (get_flag (c_enable_log cf) \<and> snd (ensure_dir w (log_dir_kind w) (arg_log_dir a)) = Inl e
        \<longrightarrow> snd (init w py a) = Inl e)
     \<and> ((get_flag (c_enable_log cf) \<longrightarrow> snd (ensure_dir w (log_dir_kind w) (arg_log_dir a)) = Inr ())
          \<and> get_flag (c_pcap_dump cf) \<and> snd (ensure_dir w (pcap_dir_kind w) (arg_pcap_dir a)) = Inl e
        \<longrightarrow> snd (init w py a) = Inl e)
     \<and> (\<forall>kind dir. snd (ensure_dir w kind dir) =
          (if kind = Directory then Inr ()
           else if kind = NotDirectory
           then Inl (Exception ([CHR 0x27] @ dir @ [CHR 0x27] @ '' exists and is not a directory!''))
           else (case mkdir_outcome w dir of None \<Rightarrow> Inr () | Some e' \<Rightarrow> Inl e')))"
proof -
  have lt: "load_topology py cf =
      Inl (Exception (''topology to create is not defined in '' @ py_str_conf py cf))"
    by (simp add: load_topology_def t)
  have u: "init w py a =
      and_then (prepare_dirs w cf a (case c_switch cf of None \<Rightarrow> default_switch w | Some s \<Rightarrow> s))
        (raise (Exception (''topology to create is not defined in '' @ py_str_conf py cf)))"
    by (simp add: init_unfold [OF f cf] lt)
  have fails: "\<exists>e. snd (init w py a) = Inl e"
    unfolding u by (rule and_then_raise)
  then have "\<And>app. snd (init w py a) \<noteq> Inr app" by auto
  then have ns: "NetStart \<notin> set (fst (main w py a))" by (rule main_no_start)
  have msg: "snd (init w py a) =
      Inl (Exception (''topology to create is not defined in '' @ py_str_conf py cf))"
    if "(get_flag (c_enable_log cf) \<longrightarrow> snd (ensure_dir w (log_dir_kind w) (arg_log_dir a)) = Inr ())
          \<and> (get_flag (c_pcap_dump cf) \<longrightarrow> snd (ensure_dir w (pcap_dir_kind w) (arg_pcap_dir a)) = Inr ())"
  proof -
    from that have "snd (prepare_dirs w cf a exe) = Inr ()" for exe
      unfolding prepare_dirs_def run_seq_ok by (auto simp: emit_def done_io_def)
    then show ?thesis
      by (simp add: u and_then_def raise_def)
  qed
  have "mentions ''topology'' (''topology'' @ '' to create is not defined in '' @ py_str_conf py cf)"
    by (rule mentions_prefix)
  then have m: "mentions ''topology'' (''topology to create is not defined in '' @ py_str_conf py cf)"
    by simp
  have lg: "snd (init w py a) = Inl e"
    if "get_flag (c_enable_log cf) \<and> snd (ensure_dir w (log_dir_kind w) (arg_log_dir a)) = Inl e"
  proof -
    from that have "snd (prepare_dirs w cf a exe) = Inl e" for exe
      by (simp add: prepare_dirs_log_fails)
    then show ?thesis by (simp add: u and_then_fail)
  qed
  have pc: "snd (init w py a) = Inl e"
    if "(get_flag (c_enable_log cf) \<longrightarrow> snd (ensure_dir w (log_dir_kind w) (arg_log_dir a)) = Inr ())
          \<and> get_flag (c_pcap_dump cf) \<and> snd (ensure_dir w (pcap_dir_kind w) (arg_pcap_dir a)) = Inl e"
  proof -
    from that have "snd (prepare_dirs w cf a exe) = Inl e" for exe
      by (simp add: prepare_dirs_pcap_fails)
    then show ?thesis by (simp add: u and_then_fail)
  qed
  have ed: "\<forall>kind dir. snd (ensure_dir w kind dir) =
          (if kind = Directory then Inr ()
           else if kind = NotDirectory
           then Inl (Exception ([CHR 0x27] @ dir @ [CHR 0x27] @ '' exists and is not a directory!''))
           else (case mkdir_outcome w dir of None \<Rightarrow> Inr () | Some e' \<Rightarrow> Inl e'))"
    by (intro allI) (rule ensure_dir_result)
  from fails ns msg m lg pc ed show ?thesis by blast
qed

theorem missing_topology_fails_before_start_witness:
  "conf_isfile (example_world\<lparr>load_conf := Inr (example_conf\<lparr>c_topology := None\<rparr>)\<rparr>)
   \<and> c_topology (example_conf\<lparr>c_topology := None\<rparr>) = None
   \<and> \<not> get_flag (c_enable_log (example_conf\<lparr>c_topology := None\<rparr>))
   \<and> \<not> get_flag (c_pcap_dump (example_conf\<lparr>c_topology := None\<rparr>))
   \<and> snd (init (example_world\<lparr>load_conf := Inr (example_conf\<lparr>c_topology := None\<rparr>)\<rparr>)
        example_python example_args) = Inl (Exception ''topology to create is not defined in {...}'')
   \<and> NetStart \<notin> set (fst (main (example_world\<lparr>load_conf := Inr (example_conf\<lparr>c_topology := None\<rparr>)\<rparr>)
        example_python example_args))
   \<and> mentions ''topology'' ''topology to create is not defined in {...}''
   \<and> get_flag (c_pcap_dump (example_conf\<lparr>c_topology := None, c_pcap_dump := Some (JInt 1)\<rparr>))
   \<and> snd (ensure_dir (example_world\<lparr>load_conf := Inr (example_conf\<lparr>c_topology := None,
          c_pcap_dump := Some (JInt 1)\<rparr>), pcap_dir_kind := NotDirectory\<rparr>) NotDirectory ''pcap'')
       = Inl (Exception ([CHR 0x27] @ ''pcap'' @ [CHR 0x27] @ '' exists and is not a directory!''))
   \<and> snd (init (example_world\<lparr>load_conf := Inr (example_conf\<lparr>c_topology := None,
          c_pcap_dump := Some (JInt 1)\<rparr>), pcap_dir_kind := NotDirectory\<rparr>)
        example_python example_args)
       = Inl (Exception ([CHR 0x27] @ ''pcap'' @ [CHR 0x27] @ '' exists and is not a directory!''))"
proof -
  have h: "conf_isfile (example_world\<lparr>load_conf := Inr (example_conf\<lparr>c_topology := None\<rparr>)\<rparr>)"
    "load_conf (example_world\<lparr>load_conf := Inr (example_conf\<lparr>c_topology := None\<rparr>)\<rparr>)
       = Inr (example_conf\<lparr>c_topology := None\<rparr>)"
    "c_topology (example_conf\<lparr>c_topology := None\<rparr>) = None"
    by (simp_all add: example_world_def)
  have g: "\<not> get_flag (c_enable_log (example_conf\<lparr>c_topology := None\<rparr>))"
    "\<not> get_flag (c_pcap_dump (example_conf\<lparr>c_topology := None\<rparr>))"
    by (simp_all add: example_conf_def get_flag_def)
  have s: "py_str_conf example_python (example_conf\<lparr>c_topology := None\<rparr>) = ''{...}''"
    by (simp add: example_python_def)
  have first: "snd (init (example_world\<lparr>load_conf := Inr (example_conf\<lparr>c_topology := None\<rparr>)\<rparr>)
        example_python example_args) = Inl (Exception ''topology to create is not defined in {...}'')
     \<and> NetStart \<notin> set (fst (main (example_world\<lparr>load_conf := Inr (example_conf\<lparr>c_topology := None\<rparr>)\<rparr>)
        example_python example_args))
     \<and> mentions ''topology'' ''topology to create is not defined in {...}''"
    using missing_topology_fails_before_start [OF h, of example_python example_args] g
    by (simp add: s)
  have h2: "conf_isfile (example_world\<lparr>load_conf := Inr (example_conf\<lparr>c_topology := None,
          c_pcap_dump := Some (JInt 1)\<rparr>), pcap_dir_kind := NotDirectory\<rparr>)"
    "load_conf (example_world\<lparr>load_conf := Inr (example_conf\<lparr>c_topology := None,
          c_pcap_dump := Some (JInt 1)\<rparr>), pcap_dir_kind := NotDirectory\<rparr>)
       = Inr (example_conf\<lparr>c_topology := None, c_pcap_dump := Some (JInt 1)\<rparr>)"
    "c_topology (example_conf\<lparr>c_topology := None, c_pcap_dump := Some (JInt 1)\<rparr>) = None"
    by (simp_all add: example_world_def)
  have g2: "\<not> get_flag (c_enable_log (example_conf\<lparr>c_topology := None, c_pcap_dump := Some (JInt 1)\<rparr>))"
    "get_flag (c_pcap_dump (example_conf\<lparr>c_topology := None, c_pcap_dump := Some (JInt 1)\<rparr>))"
    "pcap_dir_kind (example_world\<lparr>load_conf := Inr (example_conf\<lparr>c_topology := None,
          c_pcap_dump := Some (JInt 1)\<rparr>), pcap_dir_kind := NotDirectory\<rparr>) = NotDirectory"
    "arg_pcap_dir example_args = ''pcap''"
    by (simp_all add: example_conf_def get_flag_def example_args_def)
  have e2: "snd (ensure_dir (example_world\<lparr>load_conf := Inr (example_conf\<lparr>c_topology := None,
          c_pcap_dump := Some (JInt 1)\<rparr>), pcap_dir_kind := NotDirectory\<rparr>) NotDirectory ''pcap'')
       = Inl (Exception ([CHR 0x27] @ ''pcap'' @ [CHR 0x27] @ '' exists and is not a directory!''))"
    by (simp add: ensure_dir_def raise_def)
  have second: "snd (init (example_world\<lparr>load_conf := Inr (example_conf\<lparr>c_topology := None,
          c_pcap_dump := Some (JInt 1)\<rparr>), pcap_dir_kind := NotDirectory\<rparr>)
        example_python example_args)
       = Inl (Exception ([CHR 0x27] @ ''pcap'' @ [CHR 0x27] @ '' exists and is not a directory!''))"
    using missing_topology_fails_before_start [OF h2, of example_python example_args
        "Exception ([CHR 0x27] @ ''pcap'' @ [CHR 0x27] @ '' exists and is not a directory!'')"]
      g2 e2
    by simp
  from h(1,3) g first g2(2) e2 second show ?thesis by simp
qed

text \<open>
  C6, as the spec states it, fails where logging is enabled and the log directory exists
  and is no directory: the constructor raises the exception of that check, before it
  looks at the topology, and the message does not name \<open>topology\<close>.
\<close>

theorem log_dir_check_precedes_topology_check:
  "conf_isfile (example_world\<lparr>load_conf := Inr (example_conf\<lparr>c_topology := None,
        c_enable_log := Some (JBool True)\<rparr>), log_dir_kind := NotDirectory\<rparr>)
   \<and> load_conf (example_world\<lparr>load_conf := Inr (example_conf\<lparr>c_topology := None,
        c_enable_log := Some (JBool True)\<rparr>), log_dir_kind := NotDirectory\<rparr>)
       = Inr (example_conf\<lparr>c_topology := None, c_enable_log := Some (JBool True)\<rparr>)
   \<and> c_topology (example_conf\<lparr>c_topology := None, c_enable_log := Some (JBool True)\<rparr>) = None
   \<and> snd (init (example_world\<lparr>load_conf := Inr (example_conf\<lparr>c_topology := None,
        c_enable_log := Some (JBool True)\<rparr>), log_dir_kind := NotDirectory\<rparr>)
        example_python example_args)
       = Inl (Exception ([CHR 0x27] @ ''log'' @ [CHR 0x27] @ '' exists and is not a directory!''))
   \<and> \<not> mentions ''topology'' ([CHR 0x27] @ ''log'' @ [CHR 0x27] @ '' exists and is not a directory!'')"
  by (simp add: init_def Let_def example_world_def example_conf_def example_args_def
      prepare_dirs_def ensure_dir_def get_flag_def and_then_def emit_def raise_def done_io_def)




section \<open>Properties of the run\<close>

lemma and_then_done: "and_then done_io k = k"
  by (simp add: and_then_def done_io_def)

lemma and_then_assoc: "and_then (and_then a b) c = and_then a (and_then b c)"
  by (cases "snd a"; cases "snd b") (auto simp: and_then_def)

lemma run_seq_append: "run_seq (xs @ ys) = and_then (run_seq xs) (run_seq ys)"
  by (induction xs) (auto simp: and_then_done and_then_assoc)

lemma and_then_done_right: "and_then m done_io = m"
  by (cases m; cases "snd m") (auto simp: and_then_def done_io_def)

lemma run_seq_snoc: "run_seq (xs @ [s]) = and_then (run_seq xs) s"
  by (simp add: run_seq_append and_then_done_right)

lemma static_arp_and_route_no_stop: "NetStop \<notin> set (fst (static_arp_and_route py h i))"
  by (cases "py_int py (drop 1 h)")
    (simp_all add: static_arp_and_route_ok static_arp_and_route_fail)

lemma program_host_no_stop: "NetStop \<notin> set (fst (program_host py tp nt h))"
proof (cases "net_hosts nt h")
  case None
  then show ?thesis by (simp add: program_host_def raise_def)
next
  case (Some lh)
  show ?thesis
  proof (cases "intfs lh")
    case Nil
    with Some show ?thesis by (simp add: program_host_def raise_def)
  next
    case (Cons i others)
    have "NetStop \<notin> set (fst (arp_same_switch py tp h lh i))"
      using arp_same_switch_events [of NetStop py tp h lh i] by auto
    then show ?thesis
      unfolding program_host_unfold [OF Some Cons]
      using static_arp_and_route_no_stop [of py h i]
        and_then_events_subset [of "static_arp_and_route py h i" "arp_same_switch py tp h lh i"]
      by auto
  qed
qed

lemma program_hosts_no_stop: "NetStop \<notin> set (fst (program_hosts py tp nt))"
  using for_each_events_subset [of NetStop "program_host py tp nt" "hosts tp"]
    program_host_no_stop [of py tp nt]
  by (auto simp: program_hosts_def)

lemma program_switches_no_stop: "NetStop \<notin> set (fst (program_switches w app))"
proof (cases "c_switch_cli (app_conf app)")
  case None
  then show ?thesis by (simp add: program_switches_def raise_def)
next
  case (Some cli)
  have "NetStop \<notin> set (fst (program_switch w app cli x))" for x
    using program_switch_events [of NetStop w app cli "fst x" "snd x"] by auto
  then show ?thesis
    using for_each_events_subset [of NetStop "program_switch w app cli" "switches app"]
    by (auto simp: program_switches_def Some)
qed

lemma create_network_no_stop: "NetStop \<notin> set (fst (create_network w))"
proof -
  have "set (fst (create_network w)) \<subseteq> {CompileAllP4, CreateNet}"
    using call_events [of CreateNet "create_outcome w"]
    by (auto simp: create_network_def and_then_def emit_def raise_def
        split: option.splits error.splits)
  then show ?thesis by auto
qed

lemma call_fst: "fst (call ev outcome) = [ev]"
  by (cases outcome) (auto simp: call_def and_then_def emit_def done_io_def raise_def)

lemma run_app_steps_split:
  "run_app_steps w py app = butlast (run_app_steps w py app) @ [call NetStop (stop_outcome w)]"
  by (simp add: run_app_steps_def)

lemma steps_before_stop_no_stop:
  "NetStop \<notin> set (fst (run_seq (butlast (run_app_steps w py app))))"
proof
  assume "NetStop \<in> set (fst (run_seq (butlast (run_app_steps w py app))))"
  then obtain s where s: "s \<in> set (butlast (run_app_steps w py app))" "NetStop \<in> set (fst s)"
    using run_seq_events_subset by blast
  from s(1) have "s = create_network w \<or> s = call NetStart (start_outcome w) \<or> s = emit (Sleep 1)
      \<or> s = program_hosts py (built_topo w) (started_net w) \<or> s = program_switches w app
      \<or> s = save_topology w \<or> s = do_net_cli w \<or> s = done_io"
    by (auto simp: run_app_steps_def split: if_splits)
  with s(2) show False
    using create_network_no_stop [of w] program_hosts_no_stop [of py "built_topo w" "started_net w"]
      program_switches_no_stop [of w app]
    by (auto simp: call_fst emit_def done_io_def save_topology_def do_net_cli_def)
qed

text \<open>
  C8 (amended). The last step of \<^verbatim>\<open>run_app\<close> is \<^verbatim>\<open>self.net.stop()\<close>. When every
  step before it returns, it is called, as the last call of the run. When a step before
  it raises, the exception ends the run and \<^verbatim>\<open>self.net.stop()\<close> is not called.
\<close>

theorem stop_only_when_every_step_returns:
  "last (run_app_steps w py app) = call NetStop (stop_outcome w)
   \<and> (snd (run_seq (butlast (run_app_steps w py app))) = Inr () \<longrightarrow>
        fst (run_app w py app) \<noteq> [] \<and> last (fst (run_app w py app)) = NetStop)
   \<and> (snd (run_seq (butlast (run_app_steps w py app))) \<noteq> Inr () \<longrightarrow>
        NetStop \<notin> set (fst (run_app w py app))
        \<and> snd (run_app w py app) = snd (run_seq (butlast (run_app_steps w py app))))"
proof (intro conjI impI)
  show "last (run_app_steps w py app) = call NetStop (stop_outcome w)"
    by (simp add: run_app_steps_def)
next
  have u: "run_app w py app =
      and_then (run_seq (butlast (run_app_steps w py app))) (call NetStop (stop_outcome w))"
    unfolding run_app_def
    by (subst run_app_steps_split) (rule run_seq_snoc)
  {
    assume ok: "snd (run_seq (butlast (run_app_steps w py app))) = Inr ()"
    have "fst (run_app w py app) = fst (run_seq (butlast (run_app_steps w py app))) @ [NetStop]"
      by (simp add: u and_then_events_ok [OF ok] call_fst)
    then show "fst (run_app w py app) \<noteq> []" "last (fst (run_app w py app)) = NetStop"
      by simp_all
  }
  {
    assume "snd (run_seq (butlast (run_app_steps w py app))) \<noteq> Inr ()"
    then obtain e where e: "snd (run_seq (butlast (run_app_steps w py app))) = Inl e"
      by (cases "snd (run_seq (butlast (run_app_steps w py app)))") auto
    have r: "run_app w py app = (fst (run_seq (butlast (run_app_steps w py app))), Inl e)"
      by (simp add: u and_then_fail [OF e])
    show "NetStop \<notin> set (fst (run_app w py app))"
      using steps_before_stop_no_stop [of w py app] by (simp add: r)
    show "snd (run_app w py app) = snd (run_seq (butlast (run_app_steps w py app)))"
      by (simp add: r e)
  }
qed

lemma example_hosts_run:
  "program_hosts example_python example_topo example_net =
     ([Rename ''h1'' ''h1-eth0'',
       Cmd ''h1'' ''arp -i h1-eth0 -s 10.0.1.254 00:01:0a:00:01:01'',
       Cmd ''h1'' ''ethtool --offload h1-eth0 rx off tx off'',
       Cmd ''h1'' ''ip route add 10.0.1.254 dev h1-eth0'',
       SetDefaultRoute ''h1'' ''via 10.0.1.254'',
       Cmd ''h1'' ''arp -i h1-eth0 -s 10.0.1.2 00:00:0a:00:01:02'',
       Rename ''h2'' ''h2-eth0'',
       Cmd ''h2'' ''arp -i h2-eth0 -s 10.0.2.254 00:01:0a:00:01:02'',
       Cmd ''h2'' ''ethtool --offload h2-eth0 rx off tx off'',
       Cmd ''h2'' ''ip route add 10.0.2.254 dev h2-eth0'',
       SetDefaultRoute ''h2'' ''via 10.0.2.254'',
       Cmd ''h2'' ''arp -i h2-eth0 -s 10.0.1.1 00:00:0a:00:01:01'',
       Rename ''h3'' ''h3-eth0'',
       Cmd ''h3'' ''arp -i h3-eth0 -s 10.0.3.254 00:01:0a:00:02:03'',
       Cmd ''h3'' ''ethtool --offload h3-eth0 rx off tx off'',
       Cmd ''h3'' ''ip route add 10.0.3.254 dev h3-eth0'',
       SetDefaultRoute ''h3'' ''via 10.0.3.254''], Inr ())"
  by (simp add: program_hosts_def for_each_def program_host_def example_topo_def example_net_def
      example_host_def static_arp_and_route_def arp_same_switch_def arp_rule_def example_python_def
      decimal_def strip_def is_space_def digits_value_def example_network_def cidr_def
      example_digits and_then_def emit_def done_io_def
      raise_def arp_cmd_def sw_ip_def)

lemma example_app_fields:
  "cli_enabled example_app" "app_conf example_app = example_conf"
  by (simp_all add: example_app_def)

lemma example_steps_before_stop:
  "snd (run_seq (butlast (run_app_steps example_world example_python example_app))) = Inr ()"
  by (simp add: run_app_steps_def example_world_fields example_hosts_run example_switches_ok
      create_network_def save_topology_def do_net_cli_def call_def and_then_def emit_def
      done_io_def example_app_fields)

lemma example_no_switch_cli:
  "run_app example_world example_python (example_app\<lparr>app_conf := example_conf\<lparr>c_switch_cli := None\<rparr>\<rparr>) =
     ([CompileAllP4, CreateNet, NetStart, Sleep 1]
        @ fst (program_hosts example_python example_topo example_net),
      Inl (KeyError ''switch_cli''))"
  by (simp add: run_app_def run_app_steps_def example_world_fields example_hosts_run
      program_switches_def create_network_def call_def and_then_def emit_def done_io_def raise_def)

theorem stop_only_when_every_step_returns_witness:
  "snd (run_seq (butlast (run_app_steps example_world example_python example_app))) = Inr ()
   \<and> fst (run_app example_world example_python example_app) \<noteq> []
   \<and> last (fst (run_app example_world example_python example_app)) = NetStop
   \<and> snd (run_seq (butlast (run_app_steps example_world example_python
          (example_app\<lparr>app_conf := example_conf\<lparr>c_switch_cli := None\<rparr>\<rparr>)))) \<noteq> Inr ()
   \<and> NetStop \<notin> set (fst (run_app example_world example_python
          (example_app\<lparr>app_conf := example_conf\<lparr>c_switch_cli := None\<rparr>\<rparr>)))"
proof -
  have ok: "snd (run_seq (butlast (run_app_steps example_world example_python example_app))) = Inr ()"
    by (rule example_steps_before_stop)
  have bad: "snd (run_seq (butlast (run_app_steps example_world example_python
          (example_app\<lparr>app_conf := example_conf\<lparr>c_switch_cli := None\<rparr>\<rparr>)))) \<noteq> Inr ()"
    by (simp add: run_app_steps_def example_world_fields example_hosts_run
        program_switches_def create_network_def call_def and_then_def emit_def done_io_def raise_def)
  show ?thesis
    using stop_only_when_every_step_returns [of example_world example_python example_app]
      stop_only_when_every_step_returns [of example_world example_python
        "example_app\<lparr>app_conf := example_conf\<lparr>c_switch_cli := None\<rparr>\<rparr>"]
      ok bad
    by simp
qed

text \<open>
  C8, as the spec states it, fails for a document without the key \<^verbatim>\<open>switch_cli\<close>: the
  network is started and the hosts are programmed, \<^verbatim>\<open>program_switches\<close> raises
  \<^verbatim>\<open>KeyError\<close>, and the run ends without \<^verbatim>\<open>self.net.stop()\<close>.
\<close>

theorem missing_switch_cli_run_never_stops_network:
  "snd (run_app example_world example_python
          (example_app\<lparr>app_conf := example_conf\<lparr>c_switch_cli := None\<rparr>\<rparr>))
      = Inl (KeyError ''switch_cli'')
   \<and> NetStart \<in> set (fst (run_app example_world example_python
          (example_app\<lparr>app_conf := example_conf\<lparr>c_switch_cli := None\<rparr>\<rparr>)))
   \<and> NetStop \<notin> set (fst (run_app example_world example_python
          (example_app\<lparr>app_conf := example_conf\<lparr>c_switch_cli := None\<rparr>\<rparr>)))"
  by (simp add: example_no_switch_cli example_hosts_run)

end
